theory Spec2Isabelle
  imports Main
begin

section \<open>Errors, formatting and constants\<close>

text \<open>
  Go error values. \<open>LibError\<close> is an error produced by the standard library (net, url,
  io, json), identified by its text; \<open>Canceled\<close> and \<open>DeadlineExceeded\<close> are the two
  context errors; \<open>UrlError op url cause\<close> is the \<open>*url.Error\<close> in which \<open>client.Do\<close>
  wraps every failure, with the method of the request as \<open>op\<close>; \<open>Errorf msg cause\<close> is
  \<open>fmt.Errorf\<close>, with \<open>Some cause\<close> when the format ends in \<open>: %w\<close>;
  \<open>APIError status message\<close> and \<open>StorageError code message err\<close> are the two error
  structs of the repository; \<open>Panic\<close> is a run-time panic.
\<close>

datatype error =
    LibError string
  | Canceled
  | DeadlineExceeded
  | UrlError string string error
  | Errorf string "error option"
  | APIError int string
  | StorageError int string "error option"
  | Panic string

text \<open>The verb \<open>%d\<close> of \<open>fmt\<close>: a decimal numeral.\<close>

fun fmt_nat :: "nat \<Rightarrow> string" where
  "fmt_nat n = (if n < 10 then [''0123456789'' ! n]
                else fmt_nat (n div 10) @ [''0123456789'' ! (n mod 10)])"

declare fmt_nat.simps [simp del]

definition fmt_d :: "int \<Rightarrow> string" where
  "fmt_d i = (if i < 0 then ''-'' @ fmt_nat (nat (- i)) else fmt_nat (nat i))"

text \<open>
  The \<open>Op\<close> of the \<open>*url.Error\<close> of a request: \<open>net/http\<close> writes the method with its
  first letter as it stands and the others in lower case (Get, Post, Put, Delete), and
  Get for the empty method.
\<close>

definition toLower :: "char \<Rightarrow> char" where
  "toLower c =
     (case map_of (zip ''ABCDEFGHIJKLMNOPQRSTUVWXYZ'' ''abcdefghijklmnopqrstuvwxyz'') c of
        None \<Rightarrow> c
      | Some l \<Rightarrow> l)"

definition urlErrorOp :: "string \<Rightarrow> string" where
  "urlErrorOp method = (case method of [] \<Rightarrow> ''Get'' | c # cs \<Rightarrow> c # map toLower cs)"

text \<open>Durations and instants are counted in nanoseconds, as \<open>time.Duration\<close> is.\<close>

definition second :: nat where
  "second = 1000000000"

definition baseURL :: string where
  "baseURL = ''https://api.apillon.io''"

definition maxRetries :: nat where
  "maxRetries = 3"

definition retryDelay :: nat where
  "retryDelay = second"

definition timeoutGet :: nat where
  "timeoutGet = 30 * second"

definition timeoutPost :: nat where
  "timeoutPost = 60 * second"

definition ErrCodeInvalidInput :: int where
  "ErrCodeInvalidInput = 40000001"

definition defaultContentType :: string where
  "defaultContentType = ''text/plain''"

definition urlReadyDelay :: nat where
  "urlReadyDelay = 2 * second"


section \<open>The process and its environment\<close>

text \<open>
  An HTTP request as \<open>http.NewRequestWithContext\<close> builds it and the code completes it:
  method, URL, the headers set on it, and the body: what the reader handed over holds
  when the request is built (\<open>None\<close> is the nil reader, \<open>Some []\<close> a reader with nothing
  left to read). A response is its status code and what \<open>io.ReadAll(resp.Body)\<close> returns: the
  bytes read and the read error, if any.
\<close>

record http_request =
  Method :: string
  Url :: string
  Header :: "(string \<times> string) list"
  ReqBody :: "string option"

record http_response =
  StatusCode :: int
  BodyBytes :: string
  BodyErr :: "error option"

text \<open>
  The observable effects, in the order in which they happen: a call of \<open>client.Do\<close> with
  a request, and a call of \<open>time.Sleep\<close> with a duration.
\<close>

datatype event =
    HttpDo http_request
  | Sleep nat

text \<open>
  The process state: the package variable \<open>apiKey\<close>, the environment variables read by
  \<open>os.Getenv\<close> (an unset variable reads as the empty string), the clock, and the effects
  so far.
\<close>

record world =
  apiKey :: string
  environ :: "(string \<times> string) list"
  clock :: nat
  trace :: "event list"

text \<open>
  A \<open>context.Context\<close>: the instant at which its \<open>Done\<close> channel closes (\<open>None\<close>: never)
  and the error \<open>ctx.Err()\<close> reports from then on (\<open>Canceled\<close> or \<open>DeadlineExceeded\<close>).
\<close>

record Context =
  doneAt :: "nat option"
  ctxErr :: error

text \<open>
  Modelled from the spec: the type declarations of the storage package (\<open>FileMetadata\<close>,
  \<open>WholeFile\<close>, \<open>ProcessAPIResponse\<close> and the items of its file list), which the upload
  code uses and the sources do not hold. The fields are the ones the code reads and
  writes (\<open>file.Content\<close>, \<open>file.Metadata.FileName\<close>, \<open>files[i].ContentType\<close>,
  \<open>apiResp.Data.Files\<close>, \<open>fileItem.URL\<close>, \<open>apiResp.Data.SessionUUID\<close>); \<open>Path\<close> is the
  third metadata field of the wire format \<open>{fileName, contentType, path?}\<close>.
\<close>

record FileMetadata =
  FileName :: string
  ContentType :: string
  Path :: string

record WholeFile =
  Metadata :: FileMetadata
  Content :: string

record FileItem =
  URL :: string

record ProcessData =
  SessionUUID :: string
  Files :: "FileItem list"

record ProcessAPIResponse =
  Data :: ProcessData

text \<open>
  What the code calls outside the repository. \<open>urlParse\<close> is \<open>url.Parse\<close> followed by
  \<open>String()\<close>: the error, or the parsed URL written back as text. \<open>urlQuery\<close> is the URL
  with the query parameters set and encoded. \<open>transport\<close> is the network: given the
  effects so far and the request, how long the exchange takes, how many bytes of the
  request's body reader it reads, and how it ends, with a network error or a response. The three JSON functions are \<open>json.Unmarshal\<close> into an
  \<open>APIError\<close> (its status and message), \<open>json.Unmarshal\<close> into a
  \<open>ProcessAPIResponse\<close>, and \<open>json.Marshal\<close> of a \<open>startUploadRequest\<close>.
\<close>

record env =
  urlParse :: "string \<Rightarrow> error + string"
  urlQuery :: "string \<Rightarrow> (string \<times> string) list \<Rightarrow> string"
  transport :: "event list \<Rightarrow> http_request \<Rightarrow> nat \<times> nat \<times> (error + http_response)"
  unmarshalAPIError :: "string \<Rightarrow> error + int \<times> string"
  unmarshalProcess :: "string \<Rightarrow> error + ProcessAPIResponse"
  marshalStartUpload :: "FileMetadata list \<Rightarrow> error + string"

text \<open>\<open>time.Sleep(d)\<close>: it takes no context, and returns after \<open>d\<close>.\<close>

definition sleep :: "nat \<Rightarrow> world \<Rightarrow> world" where
  "sleep d w = w\<lparr>clock := clock w + d, trace := trace w @ [Sleep d]\<rparr>"

text \<open>
  \<open>ctxFires ctx t0 t1\<close>: when a call that starts at \<open>t0\<close> and would otherwise last until
  \<open>t1\<close> is cut short by the context, the instant at which it returns.
\<close>

definition ctxFires :: "Context \<Rightarrow> nat \<Rightarrow> nat \<Rightarrow> nat option" where
  "ctxFires ctx t0 t1 =
     (case doneAt ctx of
        None \<Rightarrow> None
      | Some c \<Rightarrow> if c \<le> t1 then Some (max c t0) else None)"

definition ctxDone :: "Context \<Rightarrow> nat \<Rightarrow> bool" where
  "ctxDone ctx t = (case doneAt ctx of None \<Rightarrow> False | Some c \<Rightarrow> c \<le> t)"

text \<open>
  \<open>client.Do(req)\<close> for a request made with the context \<open>ctx\<close> by a client with the given
  \<open>Timeout\<close> (0: none). The call is logged. A context that is done, or that fires before
  the exchange ends, ends the call with the context's error; a timeout that expires
  first ends it with \<open>DeadlineExceeded\<close>; otherwise the network's outcome is returned.
  Every error comes wrapped in a \<open>*url.Error\<close>.
\<close>

definition clientDo ::
  "env \<Rightarrow> Context \<Rightarrow> nat \<Rightarrow> http_request \<Rightarrow> world \<Rightarrow> (error + http_response) \<times> world" where
  "clientDo env ctx timeout req w =
     (let w1 = w\<lparr>trace := trace w @ [HttpDo req]\<rparr> in
      case transport env (trace w) req of (lat, n, out) \<Rightarrow>
        let expired = (timeout \<noteq> 0 \<and> timeout \<le> lat);
            stop = (if expired then timeout else lat)
        in (case ctxFires ctx (clock w) (clock w + stop) of
              Some t \<Rightarrow> (Inl (UrlError (urlErrorOp (Method req)) (Url req) (ctxErr ctx)), w1\<lparr>clock := t\<rparr>)
            | None \<Rightarrow>
                if expired
                then (Inl (UrlError (urlErrorOp (Method req)) (Url req) DeadlineExceeded),
                      w1\<lparr>clock := clock w + timeout\<rparr>)
                else (case out of
                        Inl e \<Rightarrow>
                          (Inl (UrlError (urlErrorOp (Method req)) (Url req) e), w1\<lparr>clock := clock w + lat\<rparr>)
                      | Inr resp \<Rightarrow> (Inr resp, w1\<lparr>clock := clock w + lat\<rparr>))))"

text \<open>
  What \<open>client.Do(req)\<close> leaves in the body reader of the request. The reader is one
  object, shared by every request built from it: what an exchange has read of it is
  gone for the requests built later. A context that is done ends the call before the
  network is reached, and nothing is read.
\<close>

definition readerAfter :: "env \<Rightarrow> Context \<Rightarrow> http_request \<Rightarrow> world \<Rightarrow> string option" where
  "readerAfter env ctx req w =
     (if ctxDone ctx (clock w) then ReqBody req
      else (case transport env (trace w) req of
              (lat, n, out) \<Rightarrow> map_option (drop n) (ReqBody req)))"

text \<open>
  \<open>http.NewRequestWithContext(ctx, method, url, body)\<close>. The methods passed by the code
  are the constants GET, POST, DELETE and PUT and the context is not nil, so the call
  fails exactly when the URL does not parse. The request is addressed to the URL as
  it was passed.
\<close>

definition NewRequestWithContext ::
  "env \<Rightarrow> string \<Rightarrow> string \<Rightarrow> string option \<Rightarrow> error + http_request" where
  "NewRequestWithContext env method url body =
     (case urlParse env url of
        Inl e \<Rightarrow> Inl e
      | Inr u \<Rightarrow> Inr \<lparr>Method = method, Url = url, Header = [], ReqBody = body\<rparr>)"

text \<open>\<open>req.Header.Set(k, v)\<close>: the value of \<open>k\<close> is replaced, or added.\<close>

fun header_set :: "string \<Rightarrow> string \<Rightarrow> (string \<times> string) list \<Rightarrow> (string \<times> string) list" where
  "header_set k v [] = [(k, v)]"
| "header_set k v ((k', v') # h) =
     (if k' = k then (k, v) # h else (k', v') # header_set k v h)"


section \<open>Package requests\<close>

definition SetAPIKey :: "string \<Rightarrow> world \<Rightarrow> world" where
  "SetAPIKey key w = w\<lparr>apiKey := key\<rparr>"

definition Getenv :: "world \<Rightarrow> string \<Rightarrow> string" where
  "Getenv w name = (case map_of (environ w) name of None \<Rightarrow> [] | Some v \<Rightarrow> v)"

definition getAPIKey :: "world \<Rightarrow> string" where
  "getAPIKey w = (if apiKey w \<noteq> [] then apiKey w else Getenv w ''APILLON_API_KEY'')"

definition buildURL :: "env \<Rightarrow> string \<Rightarrow> (string \<times> string) list \<Rightarrow> error + string" where
  "buildURL env path params =
     (case urlParse env (baseURL @ path) of
        Inl e \<Rightarrow> Inl (Errorf ''invalid base URL'' (Some e))
      | Inr base \<Rightarrow> Inr (if length params > 0 then urlQuery env base params else base))"

text \<open>
  The headers every attempt of \<open>doRequest\<close> sets on its request: the credential, and the
  JSON content type of a POST.
\<close>

definition setHeaders :: "world \<Rightarrow> string \<Rightarrow> http_request \<Rightarrow> http_request" where
  "setHeaders w method req =
     (let r1 = req\<lparr>Header := header_set ''Authorization'' (''Basic '' @ getAPIKey w) (Header req)\<rparr>
      in if method = ''POST''
         then r1\<lparr>Header := header_set ''Content-Type'' ''application/json'' (Header r1)\<rparr>
         else r1)"

text \<open>
  The loop of \<open>doRequest\<close>, from the iteration \<open>attempt\<close> on, with \<open>lastErr\<close> as the loop
  has set it so far (\<open>None\<close> is nil) and \<open>body\<close> as the attempts so far have left the
  reader: every iteration builds its request from the same reader.
\<close>

function doRequest_loop ::
  "env \<Rightarrow> Context \<Rightarrow> string \<Rightarrow> string \<Rightarrow> string option \<Rightarrow> nat \<Rightarrow> nat \<Rightarrow> error option \<Rightarrow> world
     \<Rightarrow> (error + string) \<times> world" where
  "doRequest_loop env ctx method url body timeout attempt lastErr w =
     (if attempt < maxRetries then
        (case NewRequestWithContext env method url body of
           Inl e \<Rightarrow> (Inl (Errorf ''failed to create request'' (Some e)), w)
         | Inr req0 \<Rightarrow>
             (case clientDo env ctx timeout (setHeaders w method req0) w of
                (Inl e, w1) \<Rightarrow>
                  doRequest_loop env ctx method url
                    (readerAfter env ctx (setHeaders w method req0) w)
                    timeout (Suc attempt) (Some e)
                    (sleep (retryDelay * (attempt + 1)) w1)
              | (Inr resp, w1) \<Rightarrow>
                  (case BodyErr resp of
                     Some e \<Rightarrow> (Inl (Errorf ''failed to read response body'' (Some e)), w1)
                   | None \<Rightarrow>
                       if StatusCode resp \<ge> 400 then
                         (case unmarshalAPIError env (BodyBytes resp) of
                            Inl e \<Rightarrow>
                              (Inl (Errorf (''HTTP error '' @ fmt_d (StatusCode resp) @ '': ''
                                             @ BodyBytes resp) None), w1)
                          | Inr (st, msg) \<Rightarrow> (Inl (APIError st msg), w1))
                       else (Inr (BodyBytes resp), w1))))
      else (Inl (Errorf (''request failed after '' @ fmt_d (int maxRetries) @ '' attempts'')
                   lastErr), w))"
  by pat_completeness auto
termination
  by (relation "measure (\<lambda>(env, ctx, method, url, body, timeout, attempt, lastErr, w).
                  maxRetries - attempt)") auto

declare doRequest_loop.simps [simp del]

definition doRequest ::
  "env \<Rightarrow> Context \<Rightarrow> string \<Rightarrow> string \<Rightarrow> string option \<Rightarrow> (string \<times> string) list \<Rightarrow> nat \<Rightarrow> world
     \<Rightarrow> (error + string) \<times> world" where
  "doRequest env ctx method path body params timeout w =
     (case buildURL env path params of
        Inl e \<Rightarrow> (Inl e, w)
      | Inr url \<Rightarrow> doRequest_loop env ctx method url body timeout 0 None w)"

definition GetReq ::
  "env \<Rightarrow> Context \<Rightarrow> string \<Rightarrow> (string \<times> string) list \<Rightarrow> world \<Rightarrow> (error + string) \<times> world" where
  "GetReq env ctx path params w = doRequest env ctx ''GET'' path None params timeoutGet w"

definition PostReq ::
  "env \<Rightarrow> Context \<Rightarrow> string \<Rightarrow> string option \<Rightarrow> world \<Rightarrow> (error + string) \<times> world" where
  "PostReq env ctx path body w = doRequest env ctx ''POST'' path body [] timeoutPost w"

definition DeleteReq ::
  "env \<Rightarrow> Context \<Rightarrow> string \<Rightarrow> world \<Rightarrow> (error + string) \<times> world" where
  "DeleteReq env ctx path w = doRequest env ctx ''DELETE'' path None [] timeoutGet w"


section \<open>Package storage: the upload session\<close>

text \<open>
  The loop of \<open>StartUploadFilesToBucket\<close> over \<open>files\<close>, from index \<open>i\<close> on: an empty
  content type is replaced by the default, and the first file without a name ends the
  call. The result is the slice as the loop leaves it.
\<close>

fun ensureContentTypes :: "nat \<Rightarrow> FileMetadata list \<Rightarrow> error + FileMetadata list" where
  "ensureContentTypes i [] = Inr []"
| "ensureContentTypes i (f # fs) =
     (let f' = (if ContentType f = [] then f\<lparr>ContentType := defaultContentType\<rparr> else f) in
      if FileName f' = []
      then Inl (StorageError ErrCodeInvalidInput
                  (''file at index '' @ fmt_d (int i) @ '' has no name'') None)
      else (case ensureContentTypes (Suc i) fs of
              Inl e \<Rightarrow> Inl e
            | Inr fs' \<Rightarrow> Inr (f' # fs')))"

definition StartUploadFilesToBucket ::
  "env \<Rightarrow> Context \<Rightarrow> string \<Rightarrow> FileMetadata list \<Rightarrow> world \<Rightarrow> (error + string) \<times> world" where
  "StartUploadFilesToBucket env ctx bucketUuid files w =
     (if bucketUuid = [] then
        (Inl (StorageError ErrCodeInvalidInput ''bucket UUID cannot be empty'' None), w)
      else if length files = 0 then
        (Inl (StorageError ErrCodeInvalidInput ''no files provided for upload'' None), w)
      else
        (case ensureContentTypes 0 files of
           Inl e \<Rightarrow> (Inl e, w)
         | Inr files' \<Rightarrow>
             (case marshalStartUpload env files' of
                Inl e \<Rightarrow>
                  (Inl (StorageError 500 ''failed to marshal upload files request'' (Some e)), w)
              | Inr bodyBytes \<Rightarrow>
                  (case PostReq env ctx (''/storage/buckets/'' @ bucketUuid @ ''/upload'')
                          (Some bodyBytes) w of
                     (Inl e, w1) \<Rightarrow>
                       (Inl (StorageError 500 ''failed to start upload session'' (Some e)), w1)
                   | (Inr res, w1) \<Rightarrow> (Inr res, w1)))))"

text \<open>
  \<open>UploadFiles\<close> returns an \<open>error\<close>: \<open>None\<close> is nil. Its client has no timeout, and
  nothing is set on the request but method, URL and body.
\<close>

definition UploadFiles ::
  "env \<Rightarrow> Context \<Rightarrow> string \<Rightarrow> string \<Rightarrow> world \<Rightarrow> error option \<times> world" where
  "UploadFiles env ctx signedURL rawFile w =
     (if signedURL = [] then
        (Some (StorageError ErrCodeInvalidInput ''signed URL cannot be empty'' None), w)
      else if rawFile = [] then
        (Some (StorageError ErrCodeInvalidInput ''file content cannot be empty'' None), w)
      else
        (case NewRequestWithContext env ''PUT'' signedURL (Some rawFile) of
           Inl e \<Rightarrow> (Some (StorageError 500 ''failed to create upload request'' (Some e)), w)
         | Inr req \<Rightarrow>
             (case clientDo env ctx 0 req w of
                (Inl e, w1) \<Rightarrow> (Some (StorageError 500 ''failed to upload file'' (Some e)), w1)
              | (Inr resp, w1) \<Rightarrow>
                  if StatusCode resp < 200 \<or> StatusCode resp \<ge> 300
                  then (Some (StorageError (StatusCode resp)
                                (''upload failed: '' @ BodyBytes resp) None), w1)
                  else (None, w1))))"

definition EndSession ::
  "env \<Rightarrow> Context \<Rightarrow> string \<Rightarrow> string \<Rightarrow> world \<Rightarrow> (error + string) \<times> world" where
  "EndSession env ctx bucketUuid sessionId w =
     (if bucketUuid = [] \<or> sessionId = [] then
        (Inl (StorageError ErrCodeInvalidInput
                ''bucket UUID and session ID cannot be empty'' None), w)
      else
        (case PostReq env ctx
                (''/storage/buckets/'' @ bucketUuid @ ''/upload/'' @ sessionId @ ''/end'')
                None w of
           (Inl e, w1) \<Rightarrow> (Inl (StorageError 500 ''failed to end upload session'' (Some e)), w1)
         | (Inr res, w1) \<Rightarrow> (Inr res, w1)))"

text \<open>
  The first loop of \<open>UploadFileProcess\<close>: the metadata of every file, or the error of the
  first file whose content or name is empty.
\<close>

fun extractMetadata :: "WholeFile list \<Rightarrow> error + FileMetadata list" where
  "extractMetadata [] = Inr []"
| "extractMetadata (file # rest) =
     (if Content file = [] \<or> FileName (Metadata file) = []
      then Inl (StorageError ErrCodeInvalidInput
                  (''file content or metadata is empty for file '' @ FileName (Metadata file))
                  None)
      else (case extractMetadata rest of
              Inl e \<Rightarrow> Inl e
            | Inr ms \<Rightarrow> Inr (Metadata file # ms)))"

text \<open>The second loop: the non-empty URLs of the response, in its order.\<close>

fun signedURLs :: "FileItem list \<Rightarrow> string list" where
  "signedURLs [] = []"
| "signedURLs (fileItem # rest) =
     (if URL fileItem \<noteq> [] then URL fileItem # signedURLs rest else signedURLs rest)"

text \<open>
  The third loop, from index \<open>i\<close> on: \<open>UploadFiles\<close> for each file with \<open>urls[i]\<close>, ended
  by the first error. An index beyond \<open>urls\<close> is a panic in Go.
\<close>

fun uploadEach ::
  "env \<Rightarrow> Context \<Rightarrow> string list \<Rightarrow> nat \<Rightarrow> WholeFile list \<Rightarrow> world \<Rightarrow> error option \<times> world" where
  "uploadEach env ctx urls i [] w = (None, w)"
| "uploadEach env ctx urls i (file # rest) w =
     (if i \<ge> length urls then (Some (Panic ''index out of range''), w)
      else
        (case UploadFiles env ctx (urls ! i) (Content file) w of
           (Some e, w1) \<Rightarrow>
             (Some (Errorf (''failed to upload file '' @ FileName (Metadata file)) (Some e)), w1)
         | (None, w1) \<Rightarrow> uploadEach env ctx urls (Suc i) rest w1))"

definition UploadFileProcess ::
  "env \<Rightarrow> Context \<Rightarrow> string \<Rightarrow> WholeFile list \<Rightarrow> world \<Rightarrow> (error + string) \<times> world" where
  "UploadFileProcess env ctx bucketUuid files w =
     (if bucketUuid = [] then
        (Inl (StorageError ErrCodeInvalidInput ''bucket UUID cannot be empty'' None), w)
      else if length files = 0 then
        (Inl (StorageError ErrCodeInvalidInput ''no files provided for upload'' None), w)
      else
        (case extractMetadata files of
           Inl e \<Rightarrow> (Inl e, w)
         | Inr onlyMetadata \<Rightarrow>
             (case StartUploadFilesToBucket env ctx bucketUuid onlyMetadata w of
                (Inl e, w1) \<Rightarrow> (Inl (Errorf ''failed to start upload session'' (Some e)), w1)
              | (Inr res, w1) \<Rightarrow>
                  (case unmarshalProcess env res of
                     Inl e \<Rightarrow>
                       (Inl (StorageError 500 ''failed to unmarshal process upload response''
                               (Some e)), w1)
                   | Inr apiResp \<Rightarrow>
                       (let urls = signedURLs (Files (Data apiResp)) in
                        if length urls = 0 then
                          (Inl (StorageError 500
                                  ''no signed URLs found in process upload response'' None), w1)
                        else if length urls < length files then
                          (Inl (StorageError 500
                                  (''not enough signed URLs provided. Expected ''
                                     @ fmt_d (int (length files)) @ '', got ''
                                     @ fmt_d (int (length urls))) None), w1)
                        else
                          (case uploadEach env ctx urls 0 files (sleep urlReadyDelay w1) of
                             (Some e, w3) \<Rightarrow> (Inl e, w3)
                           | (None, w3) \<Rightarrow>
                               (case EndSession env ctx bucketUuid
                                       (SessionUUID (Data apiResp)) w3 of
                                  (Inl e, w4) \<Rightarrow>
                                    (Inl (Errorf ''failed to end upload session'' (Some e)), w4)
                                | (Inr res', w4) \<Rightarrow> (Inr res', w4))))))))"


section \<open>Reading the effects\<close>

text \<open>The requests of the \<open>client.Do\<close> calls of a trace, in order.\<close>

fun requestsOf :: "event list \<Rightarrow> http_request list" where
  "requestsOf [] = []"
| "requestsOf (HttpDo req # evs) = req # requestsOf evs"
| "requestsOf (Sleep d # evs) = requestsOf evs"

text \<open>
  The request an attempt of \<open>doRequest\<close> sends when the loop was entered in the world
  \<open>w\<close> and the reader holds \<open>body\<close>.
\<close>

definition attemptRequest :: "world \<Rightarrow> string \<Rightarrow> string \<Rightarrow> string option \<Rightarrow> http_request" where
  "attemptRequest w method url body =
     setHeaders w method \<lparr>Method = method, Url = url, Header = [], ReqBody = body\<rparr>"

text \<open>
  An effect of the loop of \<open>doRequest\<close> entered in the world \<open>w\<close>: a delay, or a call
  with the request of an attempt, whatever its body.
\<close>

definition loopEvent :: "world \<Rightarrow> string \<Rightarrow> string \<Rightarrow> event \<Rightarrow> bool" where
  "loopEvent w method url ev =
     (case ev of
        Sleep d \<Rightarrow> True
      | HttpDo req \<Rightarrow> req = attemptRequest w method url (ReqBody req))"

text \<open>The request \<open>UploadFiles\<close> sends for a file: a PUT of its content, with no header.\<close>

definition putRequest :: "string \<Rightarrow> WholeFile \<Rightarrow> http_request" where
  "putRequest u file = \<lparr>Method = ''PUT'', Url = u, Header = [], ReqBody = Some (Content file)\<rparr>"

text \<open>
  The effects of an upload that fails: its PUT when the request could be built (the
  failure is then the network's or the response's), and nothing otherwise.
\<close>

definition failedUpload :: "env \<Rightarrow> string \<Rightarrow> WholeFile \<Rightarrow> event list" where
  "failedUpload env u file =
     (case urlParse env u of Inl e \<Rightarrow> [] | Inr p \<Rightarrow> [HttpDo (putRequest u file)])"

text \<open>
  The world after the first \<open>j\<close> files have each been handed to \<open>UploadFiles\<close> with the
  URL of the same index, one after the other, and the error of the upload of file \<open>j\<close>
  in that world (\<open>None\<close>: it succeeds).
\<close>

primrec afterUploads ::
  "env \<Rightarrow> Context \<Rightarrow> string list \<Rightarrow> WholeFile list \<Rightarrow> world \<Rightarrow> nat \<Rightarrow> world" where
  "afterUploads env ctx urls files w 0 = w"
| "afterUploads env ctx urls files w (Suc j) =
     snd (UploadFiles env ctx (urls ! j) (Content (files ! j))
            (afterUploads env ctx urls files w j))"

definition uploadResult ::
  "env \<Rightarrow> Context \<Rightarrow> string list \<Rightarrow> WholeFile list \<Rightarrow> world \<Rightarrow> nat \<Rightarrow> error option" where
  "uploadResult env ctx urls files w j =
     fst (UploadFiles env ctx (urls ! j) (Content (files ! j))
            (afterUploads env ctx urls files w j))"

text \<open>
  The upload phase as the specification words it: the files paired with the URLs, each
  pair uploaded in turn, up to the first failure.
\<close>

fun uploadPairs ::
  "env \<Rightarrow> Context \<Rightarrow> (string \<times> WholeFile) list \<Rightarrow> world \<Rightarrow> error option \<times> world" where
  "uploadPairs env ctx [] w = (None, w)"
| "uploadPairs env ctx ((u, file) # rest) w =
     (case UploadFiles env ctx u (Content file) w of
        (Some e, w1) \<Rightarrow>
          (Some (Errorf (''failed to upload file '' @ FileName (Metadata file)) (Some e)), w1)
      | (None, w1) \<Rightarrow> uploadPairs env ctx rest w1)"

text \<open>Step 3 of \<open>UploadFileProcess\<close>, from the world the uploads leave.\<close>

definition endPhase ::
  "env \<Rightarrow> Context \<Rightarrow> string \<Rightarrow> ProcessAPIResponse \<Rightarrow> world \<Rightarrow> (error + string) \<times> world" where
  "endPhase env ctx bucketUuid apiResp w3 =
     (case EndSession env ctx bucketUuid (SessionUUID (Data apiResp)) w3 of
        (Inl e, w4) \<Rightarrow> (Inl (Errorf ''failed to end upload session'' (Some e)), w4)
      | (Inr res, w4) \<Rightarrow> (Inr res, w4))"


section \<open>Concrete runs\<close>

text \<open>
  A process that starts at time 0 with the key \<open>k1\<close> set, a context that is never done
  and one that is cancelled at a given instant.
\<close>

definition w0 :: world where
  "w0 = \<lparr>apiKey = ''k1'', environ = [], clock = 0, trace = []\<rparr>"

definition background :: Context where
  "background = \<lparr>doneAt = None, ctxErr = Canceled\<rparr>"

definition cancelledAt :: "nat \<Rightarrow> Context" where
  "cancelledAt t = \<lparr>doneAt = Some t, ctxErr = Canceled\<rparr>"

text \<open>
  A network that refuses every connection, reading nothing, and one that reads every
  request in full and gives it the same answer.
\<close>

definition bodyLength :: "http_request \<Rightarrow> nat" where
  "bodyLength r = (case ReqBody r of None \<Rightarrow> 0 | Some b \<Rightarrow> length b)"

definition refusing ::
  "event list \<Rightarrow> http_request \<Rightarrow> nat \<times> nat \<times> (error + http_response)" where
  "refusing h r = (0, 0, Inl (LibError ''connection refused''))"

definition answering ::
  "int \<Rightarrow> string \<Rightarrow> event list \<Rightarrow> http_request \<Rightarrow> nat \<times> nat \<times> (error + http_response)" where
  "answering status text h r =
     (0, bodyLength r, Inr \<lparr>StatusCode = status, BodyBytes = text, BodyErr = None\<rparr>)"

text \<open>
  A network that reads the whole body of a request and then loses the connection, at
  every exchange.
\<close>

definition dropping ::
  "event list \<Rightarrow> http_request \<Rightarrow> nat \<times> nat \<times> (error + http_response)" where
  "dropping h r = (0, bodyLength r, Inl (LibError ''connection reset by peer''))"

text \<open>
  Two session-start responses: one with three signed URLs, an empty entry among them,
  and one with a single signed URL.
\<close>

definition sessionBody :: string where
  "sessionBody = ''{\"data\":{\"sessionUuid\":\"s1\",\"files\":[{\"url\":\"https://s3/a\"},{\"url\":\"\"},{\"url\":\"https://s3/b\"},{\"url\":\"https://s3/c\"}]}}''"

definition sessionResp :: ProcessAPIResponse where
  "sessionResp = \<lparr>Data = \<lparr>SessionUUID = ''s1'',
      Files = [\<lparr>URL = ''https://s3/a''\<rparr>, \<lparr>URL = ''''\<rparr>, \<lparr>URL = ''https://s3/b''\<rparr>,
               \<lparr>URL = ''https://s3/c''\<rparr>]\<rparr>\<rparr>"

definition shortBody :: string where
  "shortBody = ''{\"data\":{\"sessionUuid\":\"s2\",\"files\":[{\"url\":\"https://s3/a\"}]}}''"

definition shortResp :: ProcessAPIResponse where
  "shortResp = \<lparr>Data = \<lparr>SessionUUID = ''s2'', Files = [\<lparr>URL = ''https://s3/a''\<rparr>]\<rparr>\<rparr>"

text \<open>
  The storage service: a PUT is answered 500 at the URLs listed as failing and 200
  elsewhere, the session start of bucket \<open>b1\<close> with the given body, and every other
  request with \<open>{"ok":true}\<close>.
\<close>

definition storageNet ::
  "string \<Rightarrow> string list \<Rightarrow> event list \<Rightarrow> http_request
     \<Rightarrow> nat \<times> nat \<times> (error + http_response)" where
  "storageNet startBody failing h r =
     (if Method r = ''PUT'' then
        (0, bodyLength r, Inr \<lparr>StatusCode = (if Url r \<in> set failing then 500 else 200),
                               BodyBytes = [], BodyErr = None\<rparr>)
      else if Url r = baseURL @ ''/storage/buckets/b1/upload'' then
        (0, bodyLength r, Inr \<lparr>StatusCode = 200, BodyBytes = startBody, BodyErr = None\<rparr>)
      else (0, bodyLength r,
            Inr \<lparr>StatusCode = 200, BodyBytes = ''{\"ok\":true}'', BodyErr = None\<rparr>))"

text \<open>
  The library over a given network: a URL that holds the escape \<open>%zz\<close> does not parse
  (\<open>url.Parse\<close> reports an invalid URL escape) and every other URL parses to itself, the
  error envelope \<open>{"status":404,"message":"x"}\<close> and the two session responses decode,
  and nothing else does.
\<close>

fun hasBadEscape :: "string \<Rightarrow> bool" where
  "hasBadEscape [] = False"
| "hasBadEscape (c # cs) = ((c = CHR ''%'' \<and> take 2 cs = ''zz'') \<or> hasBadEscape cs)"

definition stubEnv ::
  "(event list \<Rightarrow> http_request \<Rightarrow> nat \<times> nat \<times> (error + http_response)) \<Rightarrow> env" where
  "stubEnv net =
     \<lparr>urlParse = (\<lambda>u. if hasBadEscape u then Inl (LibError ''invalid URL escape \"%zz\"'')
                      else Inr u),
      urlQuery = (\<lambda>u ps. u),
      transport = net,
      unmarshalAPIError = (\<lambda>b. if b = ''{\"status\":404,\"message\":\"x\"}'' then Inr (404, ''x'')
                               else Inl (LibError ''invalid character'')),
      unmarshalProcess = (\<lambda>b. if b = sessionBody then Inr sessionResp
                              else if b = shortBody then Inr shortResp
                              else Inl (LibError ''unexpected end of JSON input'')),
      marshalStartUpload = (\<lambda>fs. Inr ''{}'')\<rparr>"

definition fileA :: WholeFile where
  "fileA = \<lparr>Metadata = \<lparr>FileName = ''a.txt'', ContentType = '''', Path = ''''\<rparr>, Content = ''alpha''\<rparr>"

definition fileB :: WholeFile where
  "fileB = \<lparr>Metadata = \<lparr>FileName = ''b.txt'', ContentType = ''text/csv'', Path = ''''\<rparr>, Content = ''beta''\<rparr>"

definition fileC :: WholeFile where
  "fileC = \<lparr>Metadata = \<lparr>FileName = ''c.txt'', ContentType = '''', Path = ''''\<rparr>, Content = ''gamma''\<rparr>"


section \<open>The retry loop, step by step\<close>

lemma fmt_d_3: "fmt_d (int maxRetries) = ''3''"
  by (simp add: fmt_d_def maxRetries_def fmt_nat.simps)

lemma clientDo_frame:
  "clientDo env ctx timeout req w = (r, w1) \<Longrightarrow>
     trace w1 = trace w @ [HttpDo req] \<and> apiKey w1 = apiKey w \<and> environ w1 = environ w"
  by (auto simp: clientDo_def Let_def split: prod.splits option.splits if_splits sum.splits)

lemma sleep_frame:
  "trace (sleep d w) = trace w @ [Sleep d] \<and> apiKey (sleep d w) = apiKey w
     \<and> environ (sleep d w) = environ w \<and> clock (sleep d w) = clock w + d"
  by (simp add: sleep_def)

lemma setHeaders_cong:
  "apiKey w1 = apiKey w \<Longrightarrow> environ w1 = environ w \<Longrightarrow> setHeaders w1 meth req = setHeaders w meth req"
  by (simp add: setHeaders_def getAPIKey_def Getenv_def)




lemma NewRequest_target:
  "NewRequestWithContext env meth target body = Inr req0 \<Longrightarrow>
     req0 = \<lparr>Method = meth, Url = target, Header = [], ReqBody = body\<rparr>"
  by (auto simp: NewRequestWithContext_def split: sum.splits)

lemma setHeaders_target:
  "Method (setHeaders w meth req0) = Method req0 \<and> Url (setHeaders w meth req0) = Url req0
     \<and> ReqBody (setHeaders w meth req0) = ReqBody req0"
  by (simp add: setHeaders_def Let_def)

lemma loop_exhausted:
  "\<not> attempt < maxRetries \<Longrightarrow>
     doRequest_loop env ctx meth target body timeout attempt lastErr w =
       (Inl (Errorf ''request failed after 3 attempts'' lastErr), w)"
  by (simp add: doRequest_loop.simps fmt_d_3)

lemma loop_unbuilt:
  "attempt < maxRetries \<Longrightarrow> NewRequestWithContext env meth target body = Inl e \<Longrightarrow>
     doRequest_loop env ctx meth target body timeout attempt lastErr w =
       (Inl (Errorf ''failed to create request'' (Some e)), w)"
  by (subst doRequest_loop.simps) simp

lemma loop_fail_step:
  "attempt < maxRetries \<Longrightarrow> NewRequestWithContext env meth target body = Inr req0 \<Longrightarrow>
   clientDo env ctx timeout (setHeaders w meth req0) w = (Inl e, w1) \<Longrightarrow>
     doRequest_loop env ctx meth target body timeout attempt lastErr w =
       doRequest_loop env ctx meth target (readerAfter env ctx (setHeaders w meth req0) w)
         timeout (Suc attempt) (Some e) (sleep (retryDelay * (attempt + 1)) w1)"
  by (subst doRequest_loop.simps) simp

lemma loop_response_step:
  "attempt < maxRetries \<Longrightarrow> NewRequestWithContext env meth target body = Inr req0 \<Longrightarrow>
   clientDo env ctx timeout (setHeaders w meth req0) w = (Inr resp, w1) \<Longrightarrow>
     doRequest_loop env ctx meth target body timeout attempt lastErr w =
       (case BodyErr resp of
          Some e \<Rightarrow> (Inl (Errorf ''failed to read response body'' (Some e)), w1)
        | None \<Rightarrow>
            if StatusCode resp \<ge> 400 then
              (case unmarshalAPIError env (BodyBytes resp) of
                 Inl e \<Rightarrow>
                   (Inl (Errorf (''HTTP error '' @ fmt_d (StatusCode resp) @ '': ''
                                  @ BodyBytes resp) None), w1)
               | Inr (st, msg) \<Rightarrow> (Inl (APIError st msg), w1))
            else (Inr (BodyBytes resp), w1))"
  by (subst doRequest_loop.simps) simp

lemma loopEvent_cong:
  "apiKey w1 = apiKey w \<Longrightarrow> environ w1 = environ w \<Longrightarrow>
     loopEvent w1 meth target = loopEvent w meth target"
  by (rule ext)
     (simp add: loopEvent_def attemptRequest_def setHeaders_def getAPIKey_def Getenv_def
        split: event.splits)

lemma doRequest_loop_frame:
  "doRequest_loop env ctx meth target body timeout attempt lastErr w = (r, w') \<Longrightarrow>
     apiKey w' = apiKey w \<and> environ w' = environ w \<and>
     (\<exists>evs. trace w' = trace w @ evs \<and> list_all (loopEvent w meth target) evs)"
proof (induction env ctx meth target body timeout attempt lastErr w arbitrary: r w'
        rule: doRequest_loop.induct)
  case (1 env ctx meth target body timeout attempt lastErr w)
  show ?case
  proof (cases "attempt < maxRetries")
    case False
    with "1.prems" show ?thesis by (simp add: loop_exhausted)
  next
    case lt: True
    show ?thesis
    proof (cases "NewRequestWithContext env meth target body")
      case (Inl e)
      with lt "1.prems" show ?thesis by (simp add: loop_unbuilt)
    next
      case (Inr req0)
      let ?req = "setHeaders w meth req0"
      obtain res w1 where cd: "clientDo env ctx timeout ?req w = (res, w1)"
        by (cases "clientDo env ctx timeout ?req w")
      note fr = clientDo_frame [OF cd]
      have ev1: "loopEvent w meth target (HttpDo ?req)"
        using NewRequest_target [OF Inr] by (simp add: loopEvent_def attemptRequest_def setHeaders_def Let_def)
      show ?thesis
      proof (cases res)
        case (Inl e)
        let ?w2 = "sleep (retryDelay * (attempt + 1)) w1"
        let ?rest = "readerAfter env ctx ?req w"
        have run: "doRequest_loop env ctx meth target ?rest timeout (Suc attempt) (Some e) ?w2 = (r, w')"
          using loop_fail_step [OF lt Inr, of ctx timeout w e w1 lastErr] cd Inl "1.prems" by simp
        have ih: "apiKey w' = apiKey ?w2 \<and> environ w' = environ ?w2 \<and>
           (\<exists>evs. trace w' = trace ?w2 @ evs \<and> list_all (loopEvent ?w2 meth target) evs)"
          by (rule "1.IH" [OF lt Inr cd [symmetric] Inl run])
        have same: "loopEvent ?w2 meth target = loopEvent w meth target"
          by (rule loopEvent_cong) (simp_all add: sleep_frame fr)
        from ih obtain evs where evs: "trace w' = trace ?w2 @ evs"
          "list_all (loopEvent w meth target) evs"
          using same by auto
        have "trace w' = trace w @ (HttpDo ?req # Sleep (retryDelay * (attempt + 1)) # evs)"
          using evs(1) fr by (simp add: sleep_frame)
        moreover have "list_all (loopEvent w meth target)
            (HttpDo ?req # Sleep (retryDelay * (attempt + 1)) # evs)"
          using evs(2) ev1 by (simp add: loopEvent_def)
        moreover have "apiKey w' = apiKey w" "environ w' = environ w"
          using ih fr by (simp_all add: sleep_frame)
        ultimately show ?thesis by blast
      next
        case (Inr resp)
        have "snd (doRequest_loop env ctx meth target body timeout attempt lastErr w) = w1"
          using loop_response_step [OF lt \<open>NewRequestWithContext env meth target body = Inr req0\<close>,
              of ctx timeout w resp w1 lastErr] cd Inr
          by (simp split: option.splits sum.splits prod.splits)
        then have "w' = w1" using "1.prems" by simp
        then show ?thesis using fr ev1 by simp
      qed
    qed
  qed
qed


lemma requestsOf_append: "requestsOf (xs @ ys) = requestsOf xs @ requestsOf ys"
  by (induction xs rule: requestsOf.induct) auto

lemmas run_defs =
  doRequest_def GetReq_def PostReq_def DeleteReq_def buildURL_def baseURL_def
  NewRequestWithContext_def setHeaders_def getAPIKey_def Getenv_def SetAPIKey_def
  clientDo_def readerAfter_def ctxDone_def ctxFires_def sleep_def Let_def maxRetries_def
  retryDelay_def second_def timeoutGet_def timeoutPost_def fmt_d_def fmt_nat.simps
  urlErrorOp_def toLower_def bodyLength_def attemptRequest_def
  stubEnv_def refusing_def answering_def dropping_def w0_def background_def cancelledAt_def


section \<open>The retry bound\<close>




section \<open>The delays\<close>

text \<open>
  Claim C5, at a request against a network that refuses every connection. The delays
  before the second and the third attempt are one and two seconds, as the claim says;
  but the code sleeps after the third and last attempt too, for three seconds, before
  it returns the error: the call ends at six seconds, not at three.
\<close>

theorem doRequest_sleeps_after_last_attempt:
  "trace (snd (GetReq (stubEnv refusing) background ''/storage/buckets'' [] w0)) =
     [HttpDo \<lparr>Method = ''GET'', Url = ''https://api.apillon.io/storage/buckets'',
              Header = [(''Authorization'', ''Basic k1'')], ReqBody = None\<rparr>,
      Sleep (1 * second),
      HttpDo \<lparr>Method = ''GET'', Url = ''https://api.apillon.io/storage/buckets'',
              Header = [(''Authorization'', ''Basic k1'')], ReqBody = None\<rparr>,
      Sleep (2 * second),
      HttpDo \<lparr>Method = ''GET'', Url = ''https://api.apillon.io/storage/buckets'',
              Header = [(''Authorization'', ''Basic k1'')], ReqBody = None\<rparr>,
      Sleep (3 * second)]
   \<and> clock (snd (GetReq (stubEnv refusing) background ''/storage/buckets'' [] w0)) = 6 * second"
  by (simp add: run_defs doRequest_loop.simps)

section \<open>Cancellation\<close>

text \<open>
  Claim C3, at a request against a network that refuses every connection, with a context
  cancelled half a second into the first delay. The loop does not abort: the delay runs
  its full second, the second and the third attempt are still issued, and the call
  returns the retry-exhausted error, six seconds after it began.
\<close>

theorem doRequest_retries_after_cancellation:
  "\<not> ctxDone (cancelledAt 500000000) 0
   \<and> ctxDone (cancelledAt 500000000) (1 * second)
   \<and> doRequest (stubEnv refusing) (cancelledAt 500000000) ''GET'' ''/x'' None [] timeoutGet w0 =
       (Inl (Errorf ''request failed after 3 attempts''
               (Some (UrlError ''Get'' ''https://api.apillon.io/x'' Canceled))),
        w0\<lparr>clock := 6 * second,
           trace := [HttpDo \<lparr>Method = ''GET'', Url = ''https://api.apillon.io/x'',
                            Header = [(''Authorization'', ''Basic k1'')], ReqBody = None\<rparr>,
                     Sleep (1 * second),
                     HttpDo \<lparr>Method = ''GET'', Url = ''https://api.apillon.io/x'',
                            Header = [(''Authorization'', ''Basic k1'')], ReqBody = None\<rparr>,
                     Sleep (2 * second),
                     HttpDo \<lparr>Method = ''GET'', Url = ''https://api.apillon.io/x'',
                            Header = [(''Authorization'', ''Basic k1'')], ReqBody = None\<rparr>,
                     Sleep (3 * second)]\<rparr>)"
  by (simp add: run_defs doRequest_loop.simps)


section \<open>Responses with a status of 400 or more\<close>

text \<open>
  Claim C2 as stated fails: a response with status 500 whose body is not an error
  envelope is not retried. The call makes one attempt and returns the generic error.
\<close>

theorem doRequest_undecodable_not_retried:
  "unmarshalAPIError (stubEnv (answering 500 ''Internal Server Error'')) ''Internal Server Error'' =
     Inl (LibError ''invalid character'')
   \<and> doRequest (stubEnv (answering 500 ''Internal Server Error'')) background ''GET'' ''/x'' None []
        timeoutGet w0 =
       (Inl (Errorf ''HTTP error 500: Internal Server Error'' None),
        w0\<lparr>trace := [HttpDo \<lparr>Method = ''GET'', Url = ''https://api.apillon.io/x'',
                         Header = [(''Authorization'', ''Basic k1'')], ReqBody = None\<rparr>]\<rparr>)"
  by (simp add: run_defs doRequest_loop.simps)

text \<open>
  Claim C2, amended. An attempt that receives a response with a status of 400 or more,
  and reads its body, ends the loop there, whether the body decodes or not: a decodable
  body is returned as the \<open>APIError\<close> it holds, any other as the generic error with the
  status and the body text. The attempt's call is the last effect: no delay, no further
  attempt.
\<close>

theorem doRequest_loop_http_error_terminal:
  assumes "attempt < maxRetries"
    and "NewRequestWithContext env meth target body = Inr req0"
    and "clientDo env ctx timeout (setHeaders w meth req0) w = (Inr resp, w1)"
    and "BodyErr resp = None"
    and "StatusCode resp \<ge> 400"
  shows "doRequest_loop env ctx meth target body timeout attempt lastErr w =
           (Inl (case unmarshalAPIError env (BodyBytes resp) of
                   Inl e \<Rightarrow> Errorf (''HTTP error '' @ fmt_d (StatusCode resp) @ '': ''
                                      @ BodyBytes resp) None
                 | Inr (st, msg) \<Rightarrow> APIError st msg), w1)
         \<and> trace w1 = trace w @ [HttpDo (setHeaders w meth req0)]"
  using loop_response_step [OF assms(1,2,3), of lastErr] assms(4,5) clientDo_frame [OF assms(3)]
  by (simp split: sum.splits prod.splits)

theorem doRequest_loop_http_error_terminal_witness:
  "(0::nat) < maxRetries
   \<and> NewRequestWithContext (stubEnv (answering 404 ''{\"status\":404,\"message\":\"x\"}''))
        ''GET'' ''https://api.apillon.io/x'' None =
        Inr \<lparr>Method = ''GET'', Url = ''https://api.apillon.io/x'', Header = [], ReqBody = None\<rparr>
   \<and> clientDo (stubEnv (answering 404 ''{\"status\":404,\"message\":\"x\"}'')) background timeoutGet
        \<lparr>Method = ''GET'', Url = ''https://api.apillon.io/x'',
         Header = [(''Authorization'', ''Basic k1'')], ReqBody = None\<rparr> w0 =
        (Inr \<lparr>StatusCode = 404, BodyBytes = ''{\"status\":404,\"message\":\"x\"}'', BodyErr = None\<rparr>,
         w0\<lparr>trace := [HttpDo \<lparr>Method = ''GET'', Url = ''https://api.apillon.io/x'',
                          Header = [(''Authorization'', ''Basic k1'')], ReqBody = None\<rparr>]\<rparr>)
   \<and> doRequest_loop (stubEnv (answering 404 ''{\"status\":404,\"message\":\"x\"}'')) background ''GET''
        ''https://api.apillon.io/x'' None timeoutGet 0 None w0 =
        (Inl (APIError 404 ''x''),
         w0\<lparr>trace := [HttpDo \<lparr>Method = ''GET'', Url = ''https://api.apillon.io/x'',
                          Header = [(''Authorization'', ''Basic k1'')], ReqBody = None\<rparr>]\<rparr>)"
proof -
  let ?E = "stubEnv (answering 404 ''{\"status\":404,\"message\":\"x\"}'')"
  let ?plain = "\<lparr>Method = ''GET'', Url = ''https://api.apillon.io/x'', Header = [], ReqBody = None\<rparr>"
  let ?sent = "\<lparr>Method = ''GET'', Url = ''https://api.apillon.io/x'',
             Header = [(''Authorization'', ''Basic k1'')], ReqBody = None\<rparr>"
  let ?answer = "\<lparr>StatusCode = 404, BodyBytes = ''{\"status\":404,\"message\":\"x\"}'', BodyErr = None\<rparr>"
  have h1: "(0::nat) < maxRetries" by (simp add: maxRetries_def)
  have h2: "NewRequestWithContext ?E ''GET'' ''https://api.apillon.io/x'' None = Inr ?plain"
    by (simp add: run_defs)
  have hd: "setHeaders w0 ''GET'' ?plain = ?sent" by (simp add: run_defs)
  have h3: "clientDo ?E background timeoutGet (setHeaders w0 ''GET'' ?plain) w0 =
      (Inr ?answer, w0\<lparr>trace := [HttpDo ?sent]\<rparr>)"
    unfolding hd by (simp add: run_defs)
  have h4: "BodyErr ?answer = None" by simp
  have h5: "StatusCode ?answer \<ge> 400" by simp
  have dec: "unmarshalAPIError ?E (BodyBytes ?answer) = Inr (404, ''x'')"
    by (simp add: run_defs)
  show ?thesis
    using h1 h2 h3 [unfolded hd]
      doRequest_loop_http_error_terminal [OF h1 h2 h3 h4 h5, of None, unfolded dec]
    by simp
qed

section \<open>The credential\<close>

lemma map_of_header_set: "map_of (header_set k v h) = (map_of h)(k \<mapsto> v)"
  by (induction h) (auto simp: fun_eq_iff)

lemma setHeaders_authorization:
  "map_of (Header (setHeaders w meth req0)) ''Authorization'' = Some (''Basic '' @ getAPIKey w)"
  by (simp add: setHeaders_def Let_def map_of_header_set)

lemma requestsOf_mem: "req \<in> set (requestsOf evs) \<Longrightarrow> HttpDo req \<in> set evs"
  by (induction evs rule: requestsOf.induct) auto

lemma getAPIKey_cong:
  "apiKey w1 = apiKey w \<Longrightarrow> environ w1 = environ w \<Longrightarrow> getAPIKey w1 = getAPIKey w"
  by (simp add: getAPIKey_def Getenv_def)

lemma doRequest_frame:
  assumes "doRequest env ctx meth path body params timeout w = (r, w')"
  shows "apiKey w' = apiKey w \<and> environ w' = environ w \<and>
         (\<exists>evs. trace w' = trace w @ evs \<and>
            (\<forall>req \<in> set (requestsOf evs). Method req = meth \<and>
               map_of (Header req) ''Authorization'' = Some (''Basic '' @ getAPIKey w)))"
proof (cases "buildURL env path params")
  case (Inl e)
  with assms have "w' = w" by (simp add: doRequest_def)
  then show ?thesis by simp
next
  case (Inr target)
  with assms have "doRequest_loop env ctx meth target body timeout 0 None w = (r, w')"
    by (simp add: doRequest_def)
  from doRequest_loop_frame [OF this] obtain evs where
    fr: "apiKey w' = apiKey w" "environ w' = environ w" "trace w' = trace w @ evs"
    and evs: "list_all (loopEvent w meth target) evs"
    by blast
  have "Method req = meth \<and> map_of (Header req) ''Authorization'' = Some (''Basic '' @ getAPIKey w)"
    if "req \<in> set (requestsOf evs)" for req
  proof -
    from that have "HttpDo req \<in> set evs" by (rule requestsOf_mem)
    with evs have "loopEvent w meth target (HttpDo req)"
      by (simp add: list_all_iff)
    then have "req = setHeaders w meth
        \<lparr>Method = meth, Url = target, Header = [], ReqBody = ReqBody req\<rparr>"
      by (simp add: loopEvent_def attemptRequest_def)
    then show ?thesis
      using setHeaders_authorization [of w meth
          "\<lparr>Method = meth, Url = target, Header = [], ReqBody = ReqBody req\<rparr>"]
        setHeaders_target [of w meth
          "\<lparr>Method = meth, Url = target, Header = [], ReqBody = ReqBody req\<rparr>"]
      by simp
  qed
  with fr show ?thesis by blast
qed

text \<open>
  Claim C6 as stated fails: the key is not set once. After a first request made with
  the key \<open>first\<close>, a second call of \<open>SetAPIKey\<close> replaces it, and the next request
  carries the key \<open>second\<close>.
\<close>

theorem credential_replaced_by_second_SetAPIKey:
  "map (\<lambda>r. map_of (Header r) ''Authorization'')
     (requestsOf (trace (snd (GetReq (stubEnv (answering 200 ''[]'')) background ''/storage/buckets'' []
        (SetAPIKey ''second''
          (snd (GetReq (stubEnv (answering 200 ''[]'')) background ''/storage/buckets'' []
             (SetAPIKey ''first'' w0)))))))) =
   [Some ''Basic first'', Some ''Basic second'']"
  by (simp add: run_defs doRequest_loop.simps)

text \<open>
  Claim C6, amended. \<open>SetAPIKey\<close> replaces the key at every call. The credential in
  force is the key last set when that is not empty, and otherwise the value of
  \<open>APILLON_API_KEY\<close>, read from the environment each time. A request does not change
  it, and every call it makes carries it in its \<open>Authorization\<close> header.
\<close>

theorem credential_latest_set_or_environment:
  "getAPIKey (SetAPIKey key w) = (if key \<noteq> [] then key else Getenv w ''APILLON_API_KEY'')
   \<and> getAPIKey (snd (doRequest env ctx meth path body params timeout w)) = getAPIKey w
   \<and> (\<forall>req \<in> set (requestsOf (drop (length (trace w))
                     (trace (snd (doRequest env ctx meth path body params timeout w))))).
         map_of (Header req) ''Authorization'' = Some (''Basic '' @ getAPIKey w))"
proof -
  obtain r w' where run: "doRequest env ctx meth path body params timeout w = (r, w')"
    by (cases "doRequest env ctx meth path body params timeout w")
  from doRequest_frame [OF run] obtain evs where
    fr: "apiKey w' = apiKey w" "environ w' = environ w" "trace w' = trace w @ evs"
    and evs: "\<forall>req \<in> set (requestsOf evs).
        map_of (Header req) ''Authorization'' = Some (''Basic '' @ getAPIKey w)"
    by blast
  have "getAPIKey (SetAPIKey key w) = (if key \<noteq> [] then key else Getenv w ''APILLON_API_KEY'')"
    by (simp add: getAPIKey_def SetAPIKey_def Getenv_def)
  moreover have "getAPIKey w' = getAPIKey w"
    using fr by (intro getAPIKey_cong)
  moreover have "drop (length (trace w)) (trace w') = evs"
    using fr by simp
  ultimately show ?thesis using evs run by simp
qed

theorem credential_latest_set_or_environment_witness:
  "getAPIKey (SetAPIKey ''k2'' w0) = ''k2''
   \<and> getAPIKey (SetAPIKey [] (w0\<lparr>environ := [(''APILLON_API_KEY'', ''k3'')]\<rparr>)) = ''k3''
   \<and> getAPIKey (snd (doRequest (stubEnv (answering 200 ''[]'')) background ''GET''
                       ''/storage/buckets'' None [] timeoutGet w0)) = ''k1''
   \<and> map (\<lambda>r. map_of (Header r) ''Authorization'')
        (requestsOf (drop (length (trace w0))
           (trace (snd (doRequest (stubEnv (answering 200 ''[]'')) background ''GET''
                          ''/storage/buckets'' None [] timeoutGet w0))))) =
      [Some ''Basic k1'']"
  using credential_latest_set_or_environment [of "''k2''" w0 "stubEnv (answering 200 ''[]'')"
      background "''GET''" "''/storage/buckets''" None "[]" timeoutGet]
    credential_latest_set_or_environment [of "[]" "w0\<lparr>environ := [(''APILLON_API_KEY'', ''k3'')]\<rparr>"
      "stubEnv (answering 200 ''[]'')" background "''GET''" "''/storage/buckets''" None "[]" timeoutGet]
  by (simp add: run_defs doRequest_loop.simps)


section \<open>The upload of one file\<close>

text \<open>
  Claim C9 as stated fails: a signed URL that is not empty need not parse. With such a
  URL and a content that is not empty, \<open>UploadFiles\<close> cannot build its request: it makes
  no call at all and returns an error.
\<close>

theorem UploadFiles_unparsable_url_no_put:
  "''https://s3/%zz'' \<noteq> [] \<and> ''alpha'' \<noteq> []
   \<and> UploadFiles (stubEnv (storageNet sessionBody [])) background ''https://s3/%zz'' ''alpha'' w0 =
       (Some (StorageError 500 ''failed to create upload request''
                (Some (LibError ''invalid URL escape \"%zz\"''))), w0)"
  by (simp add: UploadFiles_def NewRequestWithContext_def stubEnv_def)

text \<open>
  Claim C9, amended. For a signed URL and a content that are not empty: when the URL
  parses, \<open>UploadFiles\<close> makes one call of \<open>client.Do\<close> and nothing else, a PUT to the
  signed URL with the raw content as body and no header at all, so no authorization
  header, with no delay and no second call after it; it returns nil exactly when that
  call yields a response with a status from 200 to 299, and a failure of the call, or a
  response with any other status, is returned as an error. When the URL does not
  parse, the request cannot be built: no call is made, and the error of the URL is
  returned in a \<open>StorageError\<close> with code 500.
\<close>

theorem UploadFiles_single_put:
  assumes "signedURL \<noteq> []" and "rawFile \<noteq> []"
  shows "(\<forall>e. urlParse env signedURL = Inl e \<longrightarrow>
            UploadFiles env ctx signedURL rawFile w =
              (Some (StorageError 500 ''failed to create upload request'' (Some e)), w))
       \<and> (\<forall>p. urlParse env signedURL = Inr p \<longrightarrow>
            trace (snd (UploadFiles env ctx signedURL rawFile w)) =
              trace w @ [HttpDo \<lparr>Method = ''PUT'', Url = signedURL, Header = [],
                               ReqBody = Some rawFile\<rparr>]
          \<and> (fst (UploadFiles env ctx signedURL rawFile w) = None \<longleftrightarrow>
               (\<exists>resp. fst (clientDo env ctx 0 \<lparr>Method = ''PUT'', Url = signedURL, Header = [],
                                               ReqBody = Some rawFile\<rparr> w) = Inr resp
                     \<and> 200 \<le> StatusCode resp \<and> StatusCode resp < 300))
          \<and> (\<forall>e. fst (clientDo env ctx 0 \<lparr>Method = ''PUT'', Url = signedURL, Header = [],
                                           ReqBody = Some rawFile\<rparr> w) = Inl e \<longrightarrow>
                 fst (UploadFiles env ctx signedURL rawFile w) =
                   Some (StorageError 500 ''failed to upload file'' (Some e)))
          \<and> (\<forall>resp. fst (clientDo env ctx 0 \<lparr>Method = ''PUT'', Url = signedURL, Header = [],
                                              ReqBody = Some rawFile\<rparr> w) = Inr resp
                    \<and> \<not> (200 \<le> StatusCode resp \<and> StatusCode resp < 300) \<longrightarrow>
                 fst (UploadFiles env ctx signedURL rawFile w) =
                   Some (StorageError (StatusCode resp) (''upload failed: '' @ BodyBytes resp) None)))"
proof -
  have unbuilt: "UploadFiles env ctx signedURL rawFile w =
      (Some (StorageError 500 ''failed to create upload request'' (Some e)), w)"
    if "urlParse env signedURL = Inl e" for e
    using that assms by (simp add: UploadFiles_def NewRequestWithContext_def)
  let ?put = "\<lparr>Method = ''PUT'', Url = signedURL, Header = [], ReqBody = Some rawFile\<rparr>"
  have built: "trace (snd (UploadFiles env ctx signedURL rawFile w)) = trace w @ [HttpDo ?put]
      \<and> (fst (UploadFiles env ctx signedURL rawFile w) = None \<longleftrightarrow>
           (\<exists>resp. fst (clientDo env ctx 0 ?put w) = Inr resp
                 \<and> 200 \<le> StatusCode resp \<and> StatusCode resp < 300))
      \<and> (\<forall>e. fst (clientDo env ctx 0 ?put w) = Inl e \<longrightarrow>
             fst (UploadFiles env ctx signedURL rawFile w) =
               Some (StorageError 500 ''failed to upload file'' (Some e)))
      \<and> (\<forall>resp. fst (clientDo env ctx 0 ?put w) = Inr resp
                \<and> \<not> (200 \<le> StatusCode resp \<and> StatusCode resp < 300) \<longrightarrow>
             fst (UploadFiles env ctx signedURL rawFile w) =
               Some (StorageError (StatusCode resp) (''upload failed: '' @ BodyBytes resp) None))"
    if p: "urlParse env signedURL = Inr p" for p
  proof -
    have nr: "NewRequestWithContext env ''PUT'' signedURL (Some rawFile) = Inr ?put"
      using p by (simp add: NewRequestWithContext_def)
    obtain res w1 where cd: "clientDo env ctx 0 ?put w = (res, w1)"
      by (cases "clientDo env ctx 0 ?put w")
    have tr: "trace w1 = trace w @ [HttpDo ?put]"
      using clientDo_frame [OF cd] by simp
    show ?thesis
    proof (cases res)
      case (Inl e)
      with assms nr cd tr show ?thesis by (simp add: UploadFiles_def)
    next
      case (Inr resp)
      with assms nr cd tr show ?thesis by (auto simp: UploadFiles_def)
    qed
  qed
  from unbuilt built show ?thesis by blast
qed

theorem UploadFiles_single_put_witness:
  "''https://s3/a'' \<noteq> [] \<and> ''alpha'' \<noteq> []
   \<and> urlParse (stubEnv (storageNet sessionBody [''https://s3/b''])) ''https://s3/a'' = Inr ''https://s3/a''
   \<and> UploadFiles (stubEnv (storageNet sessionBody [''https://s3/b''])) background ''https://s3/a'' ''alpha'' w0 =
       (None, w0\<lparr>trace := [HttpDo \<lparr>Method = ''PUT'', Url = ''https://s3/a'', Header = [],
                                  ReqBody = Some ''alpha''\<rparr>]\<rparr>)
   \<and> UploadFiles (stubEnv (storageNet sessionBody [''https://s3/b''])) background ''https://s3/b'' ''beta'' w0 =
       (Some (StorageError 500 ''upload failed: '' None),
        w0\<lparr>trace := [HttpDo \<lparr>Method = ''PUT'', Url = ''https://s3/b'', Header = [],
                                  ReqBody = Some ''beta''\<rparr>]\<rparr>)
   \<and> urlParse (stubEnv (storageNet sessionBody [''https://s3/b''])) ''https://s3/%zz'' =
        Inl (LibError ''invalid URL escape \"%zz\"'')
   \<and> UploadFiles (stubEnv (storageNet sessionBody [''https://s3/b''])) background ''https://s3/%zz'' ''alpha'' w0 =
       (Some (StorageError 500 ''failed to create upload request''
                (Some (LibError ''invalid URL escape \"%zz\"''))), w0)"
proof -
  let ?E = "stubEnv (storageNet sessionBody [''https://s3/b''])"
  have h1: "''https://s3/a'' \<noteq> []" by simp
  have h2: "''alpha'' \<noteq> []" by simp
  have h3: "''https://s3/%zz'' \<noteq> []" by simp
  have p1: "urlParse ?E ''https://s3/a'' = Inr ''https://s3/a''" by (simp add: stubEnv_def)
  have p2: "urlParse ?E ''https://s3/%zz'' = Inl (LibError ''invalid URL escape \"%zz\"'')"
    by (simp add: stubEnv_def)
  show ?thesis
    using p1 p2 UploadFiles_single_put [OF h1 h2, of ?E background w0]
      UploadFiles_single_put [OF h3 h2, of ?E background w0]
    by (simp add: UploadFiles_def run_defs storageNet_def)
qed

section \<open>The phases of the upload session\<close>

lemma StartUpload_frame:
  assumes "StartUploadFilesToBucket env ctx bucketUuid md w = (r, w1)"
  shows "\<exists>evs. trace w1 = trace w @ evs \<and> (\<forall>req \<in> set (requestsOf evs). Method req = ''POST'')"
proof -
  have stay: "w1 = w \<Longrightarrow> ?thesis" by simp
  show ?thesis
  proof (cases "bucketUuid = [] \<or> length md = 0")
    case True
    with assms have "w1 = w" by (auto simp: StartUploadFilesToBucket_def split: if_splits)
    then show ?thesis by (rule stay)
  next
    case ok: False
    show ?thesis
    proof (cases "ensureContentTypes 0 md")
      case (Inl e)
      with ok assms have "w1 = w" by (auto simp: StartUploadFilesToBucket_def)
      then show ?thesis by (rule stay)
    next
      case (Inr md')
      show ?thesis
      proof (cases "marshalStartUpload env md'")
        case (Inl e)
        with ok Inr assms have "w1 = w" by (auto simp: StartUploadFilesToBucket_def)
        then show ?thesis by (rule stay)
      next
        case body: (Inr bodyBytes)
        obtain r' w' where post: "doRequest env ctx ''POST''
            (''/storage/buckets/'' @ bucketUuid @ ''/upload'') (Some bodyBytes) [] timeoutPost w = (r', w')"
          by (cases "doRequest env ctx ''POST''
            (''/storage/buckets/'' @ bucketUuid @ ''/upload'') (Some bodyBytes) [] timeoutPost w")
        with ok Inr body assms have "w1 = w'"
          by (auto simp: StartUploadFilesToBucket_def PostReq_def split: sum.splits)
        with doRequest_frame [OF post] show ?thesis by blast
      qed
    qed
  qed
qed

lemma UploadFiles_events:
  assumes "u \<noteq> []" and "Content f \<noteq> []"
    and "UploadFiles env ctx u (Content f) w = (r, w')"
  shows "trace w' = trace w @ (case r of None \<Rightarrow> [HttpDo (putRequest u f)]
                                | Some e \<Rightarrow> failedUpload env u f)"
proof (cases "urlParse env u")
  case (Inl e)
  with assms show ?thesis
    by (auto simp: UploadFiles_def NewRequestWithContext_def failedUpload_def)
next
  case (Inr p)
  then have nr: "NewRequestWithContext env ''PUT'' u (Some (Content f)) = Inr (putRequest u f)"
    by (simp add: NewRequestWithContext_def putRequest_def)
  obtain res w1 where cd: "clientDo env ctx 0 (putRequest u f) w = (res, w1)"
    by (cases "clientDo env ctx 0 (putRequest u f) w")
  have "w' = w1"
    using assms nr cd by (auto simp: UploadFiles_def split: sum.splits if_splits)
  with clientDo_frame [OF cd] Inr show ?thesis
    by (simp add: failedUpload_def split: option.splits)
qed

lemma signedURLs_filter: "signedURLs items = filter (\<lambda>u. u \<noteq> []) (map URL items)"
  by (induction items) auto

lemma extractMetadata_ok:
  "extractMetadata files = Inr md \<Longrightarrow>
     \<forall>f \<in> set files. Content f \<noteq> [] \<and> FileName (Metadata f) \<noteq> []"
  by (induction files arbitrary: md) (auto split: if_splits sum.splits)

lemma uploadEach_pairs:
  "i + length files \<le> length urls \<Longrightarrow>
     uploadEach env ctx urls i files w = uploadPairs env ctx (zip (drop i urls) files) w"
proof (induction files arbitrary: i w)
  case Nil
  then show ?case by simp
next
  case (Cons f rest)
  then have i: "i < length urls" by simp
  then have dr: "drop i urls = urls ! i # drop (Suc i) urls"
    by (simp add: Cons_nth_drop_Suc)
  show ?case
    using i Cons.IH [of "Suc i"] Cons.prems
    by (simp add: dr split: prod.splits option.splits)
qed

lemma UploadFileProcess_upload_phase:
  assumes "bucketUuid \<noteq> []" and "files \<noteq> []"
    and "extractMetadata files = Inr onlyMetadata"
    and "StartUploadFilesToBucket env ctx bucketUuid onlyMetadata w = (Inr res, w1)"
    and "unmarshalProcess env res = Inr apiResp"
    and "length files \<le> length (signedURLs (Files (Data apiResp)))"
  shows "UploadFileProcess env ctx bucketUuid files w =
     (case uploadEach env ctx (signedURLs (Files (Data apiResp))) 0 files (sleep urlReadyDelay w1) of
        (Some e, w3) \<Rightarrow> (Inl e, w3)
      | (None, w3) \<Rightarrow> endPhase env ctx bucketUuid apiResp w3)"
proof -
  have "signedURLs (Files (Data apiResp)) \<noteq> []"
    using assms(2,6) by auto
  then show ?thesis
    using assms
    by (simp add: UploadFileProcess_def endPhase_def Let_def split: prod.splits option.splits)
qed

lemmas upload_defs =
  UploadFileProcess_def StartUploadFilesToBucket_def UploadFiles_def EndSession_def
  endPhase_def storageNet_def sessionBody_def sessionResp_def shortBody_def shortResp_def
  fileA_def fileB_def fileC_def urlReadyDelay_def defaultContentType_def putRequest_def
  failedUpload_def

section \<open>Fewer signed URLs than files\<close>

text \<open>
  Claim C1. When the inputs are valid, the session start returns a response and the
  response decodes, but holds fewer signed URLs (entries with a non-empty URL) than
  there are files, \<open>UploadFileProcess\<close> returns a \<open>StorageError\<close> with code 500 that
  reports the shortfall, in the very world the session start left: nothing is sent after
  it, so no session end, and no request of the whole call is a PUT.
\<close>

theorem UploadFileProcess_url_shortfall:
  assumes "bucketUuid \<noteq> []"
    and "extractMetadata files = Inr onlyMetadata"
    and "StartUploadFilesToBucket env ctx bucketUuid onlyMetadata w = (Inr res, w1)"
    and "unmarshalProcess env res = Inr apiResp"
    and "length (signedURLs (Files (Data apiResp))) < length files"
  shows "UploadFileProcess env ctx bucketUuid files w =
           (Inl (StorageError 500
                   (if signedURLs (Files (Data apiResp)) = []
                    then ''no signed URLs found in process upload response''
                    else ''not enough signed URLs provided. Expected ''
                           @ fmt_d (int (length files)) @ '', got ''
                           @ fmt_d (int (length (signedURLs (Files (Data apiResp))))))
                   None), w1)
       \<and> filter (\<lambda>req. Method req = ''PUT'') (requestsOf (trace w1)) =
           filter (\<lambda>req. Method req = ''PUT'') (requestsOf (trace w))"
proof -
  from assms(5) have "files \<noteq> []" by auto
  with assms have "UploadFileProcess env ctx bucketUuid files w =
           (Inl (StorageError 500
                   (if signedURLs (Files (Data apiResp)) = []
                    then ''no signed URLs found in process upload response''
                    else ''not enough signed URLs provided. Expected ''
                           @ fmt_d (int (length files)) @ '', got ''
                           @ fmt_d (int (length (signedURLs (Files (Data apiResp))))))
                   None), w1)"
    by (simp add: UploadFileProcess_def Let_def)
  moreover from StartUpload_frame [OF assms(3)] obtain evs where
    "trace w1 = trace w @ evs" "\<forall>req \<in> set (requestsOf evs). Method req = ''POST''"
    by blast
  then have "filter (\<lambda>req. Method req = ''PUT'') (requestsOf (trace w1)) =
      filter (\<lambda>req. Method req = ''PUT'') (requestsOf (trace w))"
    by (simp add: requestsOf_append filter_empty_conv)
  ultimately show ?thesis by simp
qed

theorem UploadFileProcess_url_shortfall_witness:
  "''b1'' \<noteq> []
   \<and> extractMetadata [fileA, fileB] = Inr [Metadata fileA, Metadata fileB]
   \<and> StartUploadFilesToBucket (stubEnv (storageNet shortBody [])) background ''b1''
        [Metadata fileA, Metadata fileB] w0 =
       (Inr shortBody,
        w0\<lparr>trace := [HttpDo \<lparr>Method = ''POST'',
                             Url = ''https://api.apillon.io/storage/buckets/b1/upload'',
                             Header = [(''Authorization'', ''Basic k1''),
                                       (''Content-Type'', ''application/json'')],
                             ReqBody = Some ''{}''\<rparr>]\<rparr>)
   \<and> unmarshalProcess (stubEnv (storageNet shortBody [])) shortBody = Inr shortResp
   \<and> length (signedURLs (Files (Data shortResp))) < length [fileA, fileB]
   \<and> UploadFileProcess (stubEnv (storageNet shortBody [])) background ''b1'' [fileA, fileB] w0 =
       (Inl (StorageError 500 ''not enough signed URLs provided. Expected 2, got 1'' None),
        w0\<lparr>trace := [HttpDo \<lparr>Method = ''POST'',
                             Url = ''https://api.apillon.io/storage/buckets/b1/upload'',
                             Header = [(''Authorization'', ''Basic k1''),
                                       (''Content-Type'', ''application/json'')],
                             ReqBody = Some ''{}''\<rparr>]\<rparr>)"
proof -
  let ?E = "stubEnv (storageNet shortBody [])"
  let ?w1 = "w0\<lparr>trace := [HttpDo \<lparr>Method = ''POST'',
                             Url = ''https://api.apillon.io/storage/buckets/b1/upload'',
                             Header = [(''Authorization'', ''Basic k1''),
                                       (''Content-Type'', ''application/json'')],
                             ReqBody = Some ''{}''\<rparr>]\<rparr>"
  have h1: "''b1'' \<noteq> []" by simp
  have h2: "extractMetadata [fileA, fileB] = Inr [Metadata fileA, Metadata fileB]"
    by (simp add: fileA_def fileB_def)
  have h3: "StartUploadFilesToBucket ?E background ''b1'' [Metadata fileA, Metadata fileB] w0 =
      (Inr shortBody, ?w1)"
    by (simp add: upload_defs run_defs doRequest_loop.simps)
  have h4: "unmarshalProcess ?E shortBody = Inr shortResp"
    by (simp add: stubEnv_def sessionBody_def shortBody_def)
  have h5: "length (signedURLs (Files (Data shortResp))) < length [fileA, fileB]"
    by (simp add: shortResp_def)
  show ?thesis
    using h1 h2 h3 h4 h5 UploadFileProcess_url_shortfall [OF h1 h2 h3 h4 h5]
    by (simp add: shortResp_def fmt_d_def fmt_nat.simps)
qed

section \<open>The order of the uploads\<close>

lemma zip_take_Suc:
  "j < length xs \<Longrightarrow> j < length ys \<Longrightarrow>
     zip xs (take (Suc j) ys) = zip xs (take j ys) @ [(xs ! j, ys ! j)]"
proof (induction xs arbitrary: j ys)
  case Nil
  then show ?case by simp
next
  case (Cons x xs)
  then obtain y ys' where ys: "ys = y # ys'" by (cases ys) auto
  show ?case
  proof (cases j)
    case 0
    with ys show ?thesis by simp
  next
    case (Suc i)
    with Cons.prems ys have "i < length xs" "i < length ys'" by simp_all
    from Cons.IH [OF this] Suc ys show ?thesis by simp
  qed
qed

lemma UploadFiles_at:
  "UploadFiles env ctx (urls ! j) (Content (files ! j)) (afterUploads env ctx urls files w j) =
     (uploadResult env ctx urls files w j, afterUploads env ctx urls files w (Suc j))"
  by (simp add: uploadResult_def)

lemma uploadEach_stops:
  assumes len: "length files \<le> length urls" and k: "k < length files"
    and failed: "uploadResult env ctx urls files w k = Some e"
  shows "n = k - i \<Longrightarrow> i \<le> k \<Longrightarrow>
         \<forall>j. i \<le> j \<and> j < k \<longrightarrow> uploadResult env ctx urls files w j = None \<Longrightarrow>
           uploadEach env ctx urls i (drop i files) (afterUploads env ctx urls files w i) =
             (Some (Errorf (''failed to upload file '' @ FileName (Metadata (files ! k))) (Some e)),
              afterUploads env ctx urls files w (Suc k))"
proof (induction n arbitrary: i)
  case 0
  then have ik: "i = k" by simp
  have dr: "drop k files = files ! k # drop (Suc k) files"
    using k by (simp add: Cons_nth_drop_Suc)
  have "k < length urls" using len k by simp
  then show ?case
    unfolding ik dr using UploadFiles_at [of env ctx urls k files w] failed
    by (simp del: afterUploads.simps)
next
  case (Suc n)
  then have ik: "i < k" by simp
  then have il: "i < length files" using k by simp
  have dr: "drop i files = files ! i # drop (Suc i) files"
    using il by (simp add: Cons_nth_drop_Suc)
  have iu: "i < length urls" using len il by simp
  have ok: "uploadResult env ctx urls files w i = None"
    using Suc.prems(3) ik by simp
  have "uploadEach env ctx urls (Suc i) (drop (Suc i) files)
          (afterUploads env ctx urls files w (Suc i)) =
        (Some (Errorf (''failed to upload file '' @ FileName (Metadata (files ! k))) (Some e)),
         afterUploads env ctx urls files w (Suc k))"
    using Suc.prems ik by (intro Suc.IH) auto
  then show ?case
    unfolding dr using UploadFiles_at [of env ctx urls i files w] ok iu
    by (simp del: afterUploads.simps)
qed

lemma uploadEach_completes:
  assumes len: "length files \<le> length urls"
  shows "n = length files - i \<Longrightarrow> i \<le> length files \<Longrightarrow>
         \<forall>j. i \<le> j \<and> j < length files \<longrightarrow> uploadResult env ctx urls files w j = None \<Longrightarrow>
           uploadEach env ctx urls i (drop i files) (afterUploads env ctx urls files w i) =
             (None, afterUploads env ctx urls files w (length files))"
proof (induction n arbitrary: i)
  case 0
  then have "i = length files" by simp
  then show ?case by simp
next
  case (Suc n)
  then have il: "i < length files" by simp
  have dr: "drop i files = files ! i # drop (Suc i) files"
    using il by (simp add: Cons_nth_drop_Suc)
  have iu: "i < length urls" using len il by simp
  have ok: "uploadResult env ctx urls files w i = None"
    using Suc.prems(3) il by simp
  have "uploadEach env ctx urls (Suc i) (drop (Suc i) files)
          (afterUploads env ctx urls files w (Suc i)) =
        (None, afterUploads env ctx urls files w (length files))"
    using Suc.prems il by (intro Suc.IH) auto
  then show ?case
    unfolding dr using UploadFiles_at [of env ctx urls i files w] ok iu
    by (simp del: afterUploads.simps)
qed

lemma afterUploads_trace:
  assumes len: "length files \<le> length urls"
    and urls: "\<forall>u \<in> set urls. u \<noteq> []" and contents: "\<forall>f \<in> set files. Content f \<noteq> []"
  shows "j \<le> length files \<Longrightarrow> \<forall>i<j. uploadResult env ctx urls files w i = None \<Longrightarrow>
           trace (afterUploads env ctx urls files w j) =
             trace w @ map HttpDo (map2 putRequest urls (take j files))"
proof (induction j)
  case 0
  then show ?case by simp
next
  case (Suc j)
  then have jl: "j < length files" by simp
  then have ju: "j < length urls" using len by simp
  have u: "urls ! j \<noteq> []" using urls ju by simp
  have c: "Content (files ! j) \<noteq> []" using contents jl by simp
  have ok: "uploadResult env ctx urls files w j = None" using Suc.prems(2) by simp
  have ih: "trace (afterUploads env ctx urls files w j) =
      trace w @ map HttpDo (map2 putRequest urls (take j files))"
    using Suc.prems by (intro Suc.IH) auto
  from UploadFiles_events [OF u c UploadFiles_at] ok
  have "trace (afterUploads env ctx urls files w (Suc j)) =
      trace (afterUploads env ctx urls files w j) @ [HttpDo (putRequest (urls ! j) (files ! j))]"
    by (simp del: afterUploads.simps)
  with ih show ?case
    by (simp del: afterUploads.simps add: zip_take_Suc [OF ju jl])
qed

text \<open>
  Claim C7. Once the session start has returned enough signed URLs, the files are handed
  to \<open>UploadFiles\<close> one after the other in the order of the input, after the settling
  delay. If the upload of file \<open>k\<close> fails, those before it having succeeded, the call
  returns the error that names file \<open>k\<close> and wraps the error of that upload, in the very
  world that upload left: the effects after the session start are the delay, the PUTs of
  the files before \<open>k\<close> in order, and that of file \<open>k\<close>; no later file is attempted and
  the session end is not sent. If every upload succeeds, the PUTs of all the files have
  been sent in order when the session end begins.
\<close>

theorem UploadFileProcess_upload_order:
  assumes "bucketUuid \<noteq> []" and "files \<noteq> []"
    and "extractMetadata files = Inr onlyMetadata"
    and "StartUploadFilesToBucket env ctx bucketUuid onlyMetadata w = (Inr res, w1)"
    and "unmarshalProcess env res = Inr apiResp"
    and "urls = signedURLs (Files (Data apiResp))"
    and "length files \<le> length urls"
  shows "(\<forall>k e. k < length files
              \<and> (\<forall>j<k. uploadResult env ctx urls files (sleep urlReadyDelay w1) j = None)
              \<and> uploadResult env ctx urls files (sleep urlReadyDelay w1) k = Some e \<longrightarrow>
            UploadFileProcess env ctx bucketUuid files w =
              (Inl (Errorf (''failed to upload file '' @ FileName (Metadata (files ! k))) (Some e)),
               afterUploads env ctx urls files (sleep urlReadyDelay w1) (Suc k))
          \<and> trace (afterUploads env ctx urls files (sleep urlReadyDelay w1) (Suc k)) =
              trace w1 @ Sleep urlReadyDelay # map HttpDo (map2 putRequest urls (take k files))
                @ failedUpload env (urls ! k) (files ! k))
       \<and> ((\<forall>j<length files. uploadResult env ctx urls files (sleep urlReadyDelay w1) j = None) \<longrightarrow>
            UploadFileProcess env ctx bucketUuid files w =
              endPhase env ctx bucketUuid apiResp
                (afterUploads env ctx urls files (sleep urlReadyDelay w1) (length files))
          \<and> trace (afterUploads env ctx urls files (sleep urlReadyDelay w1) (length files)) =
              trace w1 @ Sleep urlReadyDelay # map HttpDo (map2 putRequest urls files))"
proof -
  let ?w2 = "sleep urlReadyDelay w1"
  let ?W = "afterUploads env ctx urls files ?w2"
  have phase: "UploadFileProcess env ctx bucketUuid files w =
     (case uploadEach env ctx urls 0 files ?w2 of
        (Some e, w3) \<Rightarrow> (Inl e, w3)
      | (None, w3) \<Rightarrow> endPhase env ctx bucketUuid apiResp w3)"
    using UploadFileProcess_upload_phase [OF assms(1,2,3,4,5)] assms(6,7) by simp
  have nonempty: "\<forall>u \<in> set urls. u \<noteq> []"
    unfolding assms(6) signedURLs_filter by simp
  have contents: "\<forall>f \<in> set files. Content f \<noteq> []"
    using extractMetadata_ok [OF assms(3)] by blast
  have t2: "trace ?w2 = trace w1 @ [Sleep urlReadyDelay]"
    by (simp add: sleep_def)
  have stops: "UploadFileProcess env ctx bucketUuid files w =
        (Inl (Errorf (''failed to upload file '' @ FileName (Metadata (files ! k))) (Some e)),
         ?W (Suc k))
      \<and> trace (?W (Suc k)) =
          trace w1 @ Sleep urlReadyDelay # map HttpDo (map2 putRequest urls (take k files))
            @ failedUpload env (urls ! k) (files ! k)"
    if k: "k < length files"
      and before: "\<forall>j<k. uploadResult env ctx urls files ?w2 j = None"
      and failed: "uploadResult env ctx urls files ?w2 k = Some e" for k e
  proof -
    have "uploadEach env ctx urls 0 (drop 0 files) (?W 0) =
        (Some (Errorf (''failed to upload file '' @ FileName (Metadata (files ! k))) (Some e)),
         ?W (Suc k))"
      using before by (intro uploadEach_stops [OF assms(7) k failed]) auto
    then have run: "UploadFileProcess env ctx bucketUuid files w =
        (Inl (Errorf (''failed to upload file '' @ FileName (Metadata (files ! k))) (Some e)),
         ?W (Suc k))"
      using phase by simp
    have ku: "k < length urls" using k assms(7) by simp
    have "trace (?W k) = trace ?w2 @ map HttpDo (map2 putRequest urls (take k files))"
      using k before by (intro afterUploads_trace [OF assms(7) nonempty contents]) auto
    moreover have "trace (?W (Suc k)) = trace (?W k) @ failedUpload env (urls ! k) (files ! k)"
      using UploadFiles_events [OF _ _ UploadFiles_at, of urls k files env ctx ?w2]
        nonempty contents k ku failed by (simp del: afterUploads.simps)
    ultimately show ?thesis using run t2 by simp
  qed
  have completes: "UploadFileProcess env ctx bucketUuid files w =
        endPhase env ctx bucketUuid apiResp (?W (length files))
      \<and> trace (?W (length files)) =
          trace w1 @ Sleep urlReadyDelay # map HttpDo (map2 putRequest urls files)"
    if all: "\<forall>j<length files. uploadResult env ctx urls files ?w2 j = None"
  proof -
    have "uploadEach env ctx urls 0 (drop 0 files) (?W 0) = (None, ?W (length files))"
      using all by (intro uploadEach_completes [OF assms(7)]) auto
    then have "UploadFileProcess env ctx bucketUuid files w =
        endPhase env ctx bucketUuid apiResp (?W (length files))"
      using phase by simp
    moreover have "trace (?W (length files)) =
        trace ?w2 @ map HttpDo (map2 putRequest urls (take (length files) files))"
      using all by (intro afterUploads_trace [OF assms(7) nonempty contents]) auto
    ultimately show ?thesis using t2 by simp
  qed
  from stops completes show ?thesis by blast
qed

theorem UploadFileProcess_upload_order_witness:
  "''b1'' \<noteq> [] \<and> [fileA, fileB, fileC] \<noteq> []
   \<and> extractMetadata [fileA, fileB, fileC] = Inr [Metadata fileA, Metadata fileB, Metadata fileC]
   \<and> StartUploadFilesToBucket (stubEnv (storageNet sessionBody [''https://s3/b''])) background ''b1''
        [Metadata fileA, Metadata fileB, Metadata fileC] w0 =
       (Inr sessionBody,
        w0\<lparr>trace := [HttpDo \<lparr>Method = ''POST'',
                             Url = ''https://api.apillon.io/storage/buckets/b1/upload'',
                             Header = [(''Authorization'', ''Basic k1''),
                                       (''Content-Type'', ''application/json'')],
                             ReqBody = Some ''{}''\<rparr>]\<rparr>)
   \<and> unmarshalProcess (stubEnv (storageNet sessionBody [''https://s3/b''])) sessionBody =
       Inr sessionResp
   \<and> [''https://s3/a'', ''https://s3/b'', ''https://s3/c''] = signedURLs (Files (Data sessionResp))
   \<and> length [fileA, fileB, fileC] \<le> length [''https://s3/a'', ''https://s3/b'', ''https://s3/c'']
   \<and> uploadResult (stubEnv (storageNet sessionBody [''https://s3/b''])) background
        [''https://s3/a'', ''https://s3/b'', ''https://s3/c''] [fileA, fileB, fileC]
        (sleep urlReadyDelay
           (w0\<lparr>trace := [HttpDo \<lparr>Method = ''POST'',
                             Url = ''https://api.apillon.io/storage/buckets/b1/upload'',
                             Header = [(''Authorization'', ''Basic k1''),
                                       (''Content-Type'', ''application/json'')],
                             ReqBody = Some ''{}''\<rparr>]\<rparr>)) 0 = None
   \<and> uploadResult (stubEnv (storageNet sessionBody [''https://s3/b''])) background
        [''https://s3/a'', ''https://s3/b'', ''https://s3/c''] [fileA, fileB, fileC]
        (sleep urlReadyDelay
           (w0\<lparr>trace := [HttpDo \<lparr>Method = ''POST'',
                             Url = ''https://api.apillon.io/storage/buckets/b1/upload'',
                             Header = [(''Authorization'', ''Basic k1''),
                                       (''Content-Type'', ''application/json'')],
                             ReqBody = Some ''{}''\<rparr>]\<rparr>)) 1 =
       Some (StorageError 500 ''upload failed: '' None)
   \<and> UploadFileProcess (stubEnv (storageNet sessionBody [''https://s3/b''])) background ''b1''
        [fileA, fileB, fileC] w0 =
       (Inl (Errorf ''failed to upload file b.txt'' (Some (StorageError 500 ''upload failed: '' None))),
        w0\<lparr>clock := 2 * second,
           trace := [HttpDo \<lparr>Method = ''POST'',
                             Url = ''https://api.apillon.io/storage/buckets/b1/upload'',
                             Header = [(''Authorization'', ''Basic k1''),
                                       (''Content-Type'', ''application/json'')],
                             ReqBody = Some ''{}''\<rparr>,
                     Sleep (2 * second),
                     HttpDo \<lparr>Method = ''PUT'', Url = ''https://s3/a'', Header = [],
                             ReqBody = Some ''alpha''\<rparr>,
                     HttpDo \<lparr>Method = ''PUT'', Url = ''https://s3/b'', Header = [],
                             ReqBody = Some ''beta''\<rparr>]\<rparr>)"
proof -
  let ?E = "stubEnv (storageNet sessionBody [''https://s3/b''])"
  let ?urls = "[''https://s3/a'', ''https://s3/b'', ''https://s3/c'']"
  let ?w1 = "w0\<lparr>trace := [HttpDo \<lparr>Method = ''POST'',
                             Url = ''https://api.apillon.io/storage/buckets/b1/upload'',
                             Header = [(''Authorization'', ''Basic k1''),
                                       (''Content-Type'', ''application/json'')],
                             ReqBody = Some ''{}''\<rparr>]\<rparr>"
  have h1: "''b1'' \<noteq> []" by simp
  have h2: "[fileA, fileB, fileC] \<noteq> []" by simp
  have h3: "extractMetadata [fileA, fileB, fileC] =
      Inr [Metadata fileA, Metadata fileB, Metadata fileC]"
    by (simp add: fileA_def fileB_def fileC_def)
  have h4: "StartUploadFilesToBucket ?E background ''b1''
      [Metadata fileA, Metadata fileB, Metadata fileC] w0 = (Inr sessionBody, ?w1)"
    by (simp add: upload_defs run_defs doRequest_loop.simps)
  have h5: "unmarshalProcess ?E sessionBody = Inr sessionResp"
    by (simp add: stubEnv_def)
  have h6: "?urls = signedURLs (Files (Data sessionResp))"
    by (simp add: sessionResp_def)
  have h7: "length [fileA, fileB, fileC] \<le> length ?urls"
    by simp
  have r0: "uploadResult ?E background ?urls [fileA, fileB, fileC] (sleep urlReadyDelay ?w1) 0 = None"
    by (simp add: uploadResult_def upload_defs run_defs)
  have r1: "uploadResult ?E background ?urls [fileA, fileB, fileC] (sleep urlReadyDelay ?w1) 1 =
      Some (StorageError 500 ''upload failed: '' None)"
    by (simp add: uploadResult_def upload_defs run_defs)
  have before: "\<forall>j<1. uploadResult ?E background ?urls [fileA, fileB, fileC]
      (sleep urlReadyDelay ?w1) j = None"
    using r0 by simp
  have k: "(1::nat) < length [fileA, fileB, fileC]" by simp
  have w3: "afterUploads ?E background ?urls [fileA, fileB, fileC] (sleep urlReadyDelay ?w1) (Suc 1) =
      w0\<lparr>clock := 2 * second,
           trace := [HttpDo \<lparr>Method = ''POST'',
                             Url = ''https://api.apillon.io/storage/buckets/b1/upload'',
                             Header = [(''Authorization'', ''Basic k1''),
                                       (''Content-Type'', ''application/json'')],
                             ReqBody = Some ''{}''\<rparr>,
                     Sleep (2 * second),
                     HttpDo \<lparr>Method = ''PUT'', Url = ''https://s3/a'', Header = [],
                             ReqBody = Some ''alpha''\<rparr>,
                     HttpDo \<lparr>Method = ''PUT'', Url = ''https://s3/b'', Header = [],
                             ReqBody = Some ''beta''\<rparr>]\<rparr>"
    by (simp add: upload_defs run_defs numeral_2_eq_2)
  have name: "''failed to upload file '' @ FileName (Metadata ([fileA, fileB, fileC] ! 1)) =
      ''failed to upload file b.txt''"
    by (simp add: fileB_def)
  from UploadFileProcess_upload_order [OF h1 h2 h3 h4 h5 h6 h7]
  have "UploadFileProcess ?E background ''b1'' [fileA, fileB, fileC] w0 =
      (Inl (Errorf (''failed to upload file '' @ FileName (Metadata ([fileA, fileB, fileC] ! 1)))
              (Some (StorageError 500 ''upload failed: '' None))),
       afterUploads ?E background ?urls [fileA, fileB, fileC] (sleep urlReadyDelay ?w1) (Suc 1))"
    using k before r1 by blast
  then show ?thesis
    unfolding w3 name using h1 h2 h3 h4 h5 h6 h7 r0 r1 by simp
qed

section \<open>Pairing files with URLs\<close>

text \<open>
  Claim C10. When the response holds at least as many entries with a non-empty URL as
  there are files, the call passes the URL checks and goes on to the uploads, and file
  \<open>i\<close> is uploaded to the \<open>i\<close>-th non-empty URL of the response: the run is the one of
  \<open>uploadPairs\<close> over the files zipped with the non-empty URLs in response order.
  Entries with an empty URL are skipped, so the index of a file and the index of its
  entry may differ, and URLs beyond the last file are not used.
\<close>

theorem UploadFileProcess_pairs_by_nonempty_url:
  assumes "bucketUuid \<noteq> []" and "files \<noteq> []"
    and "extractMetadata files = Inr onlyMetadata"
    and "StartUploadFilesToBucket env ctx bucketUuid onlyMetadata w = (Inr res, w1)"
    and "unmarshalProcess env res = Inr apiResp"
    and "length files \<le> length (filter (\<lambda>u. u \<noteq> []) (map URL (Files (Data apiResp))))"
  shows "UploadFileProcess env ctx bucketUuid files w =
     (case uploadPairs env ctx
             (zip (filter (\<lambda>u. u \<noteq> []) (map URL (Files (Data apiResp)))) files)
             (sleep urlReadyDelay w1) of
        (Some e, w3) \<Rightarrow> (Inl e, w3)
      | (None, w3) \<Rightarrow> endPhase env ctx bucketUuid apiResp w3)"
proof -
  have len: "length files \<le> length (signedURLs (Files (Data apiResp)))"
    using assms(6) by (simp add: signedURLs_filter)
  have "uploadEach env ctx (signedURLs (Files (Data apiResp))) 0 files (sleep urlReadyDelay w1) =
      uploadPairs env ctx (zip (filter (\<lambda>u. u \<noteq> []) (map URL (Files (Data apiResp)))) files)
        (sleep urlReadyDelay w1)"
    using uploadEach_pairs [of 0 files "signedURLs (Files (Data apiResp))"] len
    by (simp add: signedURLs_filter)
  with UploadFileProcess_upload_phase [OF assms(1,2,3,4,5) len] show ?thesis by simp
qed

theorem UploadFileProcess_pairs_by_nonempty_url_witness:
  "''b1'' \<noteq> [] \<and> [fileA, fileB] \<noteq> []
   \<and> extractMetadata [fileA, fileB] = Inr [Metadata fileA, Metadata fileB]
   \<and> StartUploadFilesToBucket (stubEnv (storageNet sessionBody [])) background ''b1''
        [Metadata fileA, Metadata fileB] w0 =
       (Inr sessionBody,
        w0\<lparr>trace := [HttpDo \<lparr>Method = ''POST'',
                             Url = ''https://api.apillon.io/storage/buckets/b1/upload'',
                             Header = [(''Authorization'', ''Basic k1''),
                                       (''Content-Type'', ''application/json'')],
                             ReqBody = Some ''{}''\<rparr>]\<rparr>)
   \<and> unmarshalProcess (stubEnv (storageNet sessionBody [])) sessionBody = Inr sessionResp
   \<and> map URL (Files (Data sessionResp)) = [''https://s3/a'', [], ''https://s3/b'', ''https://s3/c'']
   \<and> length [fileA, fileB] \<le> length (filter (\<lambda>u. u \<noteq> []) (map URL (Files (Data sessionResp))))
   \<and> UploadFileProcess (stubEnv (storageNet sessionBody [])) background ''b1'' [fileA, fileB] w0 =
       (Inr ''{\"ok\":true}'',
        w0\<lparr>clock := 2 * second,
           trace := [HttpDo \<lparr>Method = ''POST'',
                             Url = ''https://api.apillon.io/storage/buckets/b1/upload'',
                             Header = [(''Authorization'', ''Basic k1''),
                                       (''Content-Type'', ''application/json'')],
                             ReqBody = Some ''{}''\<rparr>,
                     Sleep (2 * second),
                     HttpDo \<lparr>Method = ''PUT'', Url = ''https://s3/a'', Header = [],
                             ReqBody = Some ''alpha''\<rparr>,
                     HttpDo \<lparr>Method = ''PUT'', Url = ''https://s3/b'', Header = [],
                             ReqBody = Some ''beta''\<rparr>,
                     HttpDo \<lparr>Method = ''POST'',
                             Url = ''https://api.apillon.io/storage/buckets/b1/upload/s1/end'',
                             Header = [(''Authorization'', ''Basic k1''),
                                       (''Content-Type'', ''application/json'')],
                             ReqBody = None\<rparr>]\<rparr>)"
proof -
  let ?E = "stubEnv (storageNet sessionBody [])"
  let ?w1 = "w0\<lparr>trace := [HttpDo \<lparr>Method = ''POST'',
                             Url = ''https://api.apillon.io/storage/buckets/b1/upload'',
                             Header = [(''Authorization'', ''Basic k1''),
                                       (''Content-Type'', ''application/json'')],
                             ReqBody = Some ''{}''\<rparr>]\<rparr>"
  have h1: "''b1'' \<noteq> []" by simp
  have h2: "[fileA, fileB] \<noteq> []" by simp
  have h3: "extractMetadata [fileA, fileB] = Inr [Metadata fileA, Metadata fileB]"
    by (simp add: fileA_def fileB_def)
  have h4: "StartUploadFilesToBucket ?E background ''b1'' [Metadata fileA, Metadata fileB] w0 =
      (Inr sessionBody, ?w1)"
    by (simp add: upload_defs run_defs doRequest_loop.simps)
  have h5: "unmarshalProcess ?E sessionBody = Inr sessionResp"
    by (simp add: stubEnv_def)
  have h6: "length [fileA, fileB] \<le> length (filter (\<lambda>u. u \<noteq> []) (map URL (Files (Data sessionResp))))"
    by (simp add: sessionResp_def)
  have us: "map URL (Files (Data sessionResp)) = [''https://s3/a'', [], ''https://s3/b'', ''https://s3/c'']"
    by (simp add: sessionResp_def)
  show ?thesis
    using h1 h2 h3 h4 h5 h6 us UploadFileProcess_pairs_by_nonempty_url [OF h1 h2 h3 h4 h5 h6]
    by (simp add: upload_defs run_defs doRequest_loop.simps)
qed


section \<open>Input validation\<close>

lemma extractMetadata_invalid:
  "\<exists>f \<in> set files. Content f = [] \<or> FileName (Metadata f) = [] \<Longrightarrow>
     \<exists>msg. extractMetadata files = Inl (StorageError ErrCodeInvalidInput msg None)"
proof (induction files)
  case Nil
  then show ?case by simp
next
  case (Cons fl rest)
  show ?case
  proof (cases "Content fl = [] \<or> FileName (Metadata fl) = []")
    case True
    then show ?thesis by auto
  next
    case False
    with Cons.prems have "\<exists>f \<in> set rest. Content f = [] \<or> FileName (Metadata f) = []"
      by auto
    from Cons.IH [OF this] obtain msg where
      "extractMetadata rest = Inl (StorageError ErrCodeInvalidInput msg None)" ..
    with False show ?thesis by simp
  qed
qed

text \<open>
  Claim C8. A call of \<open>UploadFileProcess\<close> with an empty bucket id, an empty file list, or a
  file whose name or content is empty returns a \<open>StorageError\<close> with the invalid-input
  code, and leaves the world as it found it: nothing was sent, and no time has passed.
\<close>

theorem UploadFileProcess_invalid_input:
  assumes "bucketUuid = [] \<or> files = []
             \<or> (\<exists>f \<in> set files. Content f = [] \<or> FileName (Metadata f) = [])"
  shows "\<exists>msg. UploadFileProcess env ctx bucketUuid files w =
           (Inl (StorageError ErrCodeInvalidInput msg None), w)"
proof (cases "bucketUuid = [] \<or> files = []")
  case True
  then show ?thesis by (auto simp: UploadFileProcess_def)
next
  case False
  with assms have "\<exists>f \<in> set files. Content f = [] \<or> FileName (Metadata f) = []" by blast
  from extractMetadata_invalid [OF this] obtain msg where
    "extractMetadata files = Inl (StorageError ErrCodeInvalidInput msg None)" ..
  with False show ?thesis by (auto simp: UploadFileProcess_def)
qed

theorem UploadFileProcess_invalid_input_witness:
  "(''b1'' = [] \<or> [fileA, fileB\<lparr>Content := []\<rparr>] = []
      \<or> (\<exists>f \<in> set [fileA, fileB\<lparr>Content := []\<rparr>]. Content f = [] \<or> FileName (Metadata f) = []))
   \<and> (\<exists>msg. UploadFileProcess (stubEnv refusing) background ''b1'' [fileA, fileB\<lparr>Content := []\<rparr>] w0 =
           (Inl (StorageError ErrCodeInvalidInput msg None), w0))"
proof -
  have h: "''b1'' = [] \<or> [fileA, fileB\<lparr>Content := []\<rparr>] = []
      \<or> (\<exists>f \<in> set [fileA, fileB\<lparr>Content := []\<rparr>]. Content f = [] \<or> FileName (Metadata f) = [])"
    by simp
  show ?thesis
    using h UploadFileProcess_invalid_input [OF h, of "stubEnv refusing" background w0] by blast
qed

end
